theory Spec2Isabelle
  imports Main
begin

section \<open>Bytes and strings\<close>

text \<open>
  Go strings are byte sequences; a byte is a \<open>char\<close> and its numeric value is
  \<open>of_char\<close>.
\<close>

definition byte :: "char \<Rightarrow> nat" where
  "byte c = of_char c"

definition isCap :: "char \<Rightarrow> bool" where
  "isCap c = (65 \<le> byte c \<and> byte c \<le> 90)"

definition isLow :: "char \<Rightarrow> bool" where
  "isLow c = (97 \<le> byte c \<and> byte c \<le> 122)"

definition isNum :: "char \<Rightarrow> bool" where
  "isNum c = (48 \<le> byte c \<and> byte c \<le> 57)"

definition toUpperByte :: "char \<Rightarrow> char" where
  "toUpperByte c = char_of (byte c + 65 - 97)"

definition toLowerByte :: "char \<Rightarrow> char" where
  "toLowerByte c = char_of (byte c + 97 - 65)"

text \<open>\<open>strings.TrimSpace\<close> on the ASCII white space: tab, newline, vertical tab, form feed,
  carriage return and space.\<close>

definition isSpace :: "char \<Rightarrow> bool" where
  "isSpace c = (byte c = 32 \<or> (9 \<le> byte c \<and> byte c \<le> 13))"

definition TrimSpace :: "string \<Rightarrow> string" where
  "TrimSpace s = rev (dropWhile isSpace (rev (dropWhile isSpace s)))"

text \<open>\<open>strings.HasPrefix\<close>.\<close>

definition HasPrefix :: "string \<Rightarrow> string \<Rightarrow> bool" where
  "HasPrefix s p = (take (length p) s = p)"

section \<open>The case conversions of \<open>strcase\<close>\<close>

text \<open>
  \<open>strcase.ToScreamingDelimited(s, delimiter, ignore, screaming)\<close>: the loop over the bytes of
  the trimmed string, with the previous byte (\<open>s[i-1]\<close>, absent at \<open>i = 0\<close>) carried along.
  Every byte is written, upper-cased or lower-cased; a delimiter is inserted where the case type
  changes, and space, underscore, hyphen and dot are replaced by the delimiter.
\<close>

fun delimitLoop :: "char \<Rightarrow> string \<Rightarrow> bool \<Rightarrow> char option \<Rightarrow> string \<Rightarrow> string" where
  "delimitLoop d ignore screaming prev [] = []"
| "delimitLoop d ignore screaming prev (c # cs) =
     (let vIsCap = isCap c;
          vIsLow = isLow c;
          v = (if vIsLow \<and> screaming then toUpperByte c
               else if vIsCap \<and> \<not> screaming then toLowerByte c else c);
          plain = (if (v = CHR '' '' \<or> v = CHR ''_'' \<or> v = CHR ''-'' \<or> v = CHR ''.'')
                      \<and> v \<notin> set ignore
                   then d else v)
      in case cs of
           [] \<Rightarrow> [plain]
         | next # _ \<Rightarrow>
             (let vIsNum = isNum v;
                  nextIsCap = isCap next;
                  nextIsLow = isLow next;
                  nextIsNum = isNum next;
                  prevIgnore = (ignore \<noteq> [] \<and> (case prev of None \<Rightarrow> False | Some q \<Rightarrow> q \<in> set ignore));
                  prevIsCap = (case prev of None \<Rightarrow> False | Some q \<Rightarrow> isCap q)
              in if ((vIsCap \<and> (nextIsLow \<or> nextIsNum)) \<or> (vIsLow \<and> (nextIsCap \<or> nextIsNum))
                      \<or> (vIsNum \<and> (nextIsCap \<or> nextIsLow))) \<and> \<not> prevIgnore
                 then (if vIsCap \<and> nextIsLow \<and> prevIsCap then [d] else [])
                      @ [v]
                      @ (if vIsLow \<or> vIsNum \<or> nextIsNum then [d] else [])
                      @ delimitLoop d ignore screaming (Some c) cs
                 else plain # delimitLoop d ignore screaming (Some c) cs))"

definition ToScreamingDelimited :: "string \<Rightarrow> char \<Rightarrow> string \<Rightarrow> bool \<Rightarrow> string" where
  "ToScreamingDelimited s delimiter ignore screaming =
     delimitLoop delimiter ignore screaming None (TrimSpace s)"

definition ToDelimited :: "string \<Rightarrow> char \<Rightarrow> string" where
  "ToDelimited s delimiter = ToScreamingDelimited s delimiter [] False"

definition ToKebab :: "string \<Rightarrow> string" where
  "ToKebab s = ToDelimited s (CHR ''-'')"

definition ToScreamingSnake :: "string \<Rightarrow> string" where
  "ToScreamingSnake s = ToScreamingDelimited s (CHR ''_'') [] True"

section \<open>Errors\<close>

text \<open>
  Go error values. \<open>Errorf format operands wrapped\<close> is the result of \<open>fmt.Errorf\<close> with one
  \<open>%w\<close> verb: the format string, the other operands as text, and the error it wraps.
  \<open>Failf\<close> and \<open>FailfErr\<close> are the errors of \<open>flag.FlagSet.failf\<close>, which wrap nothing
  (\<open>FailfErr\<close> prints an error with \<open>%v\<close>). \<open>NumError\<close> is \<open>strconv.NumError\<close>
  (function, input text, cause). \<open>LibError\<close> is any other error of a library.
\<close>

datatype err =
    ErrInvalidConfigType
  | ErrUnsupportedType
  | ErrHelp
  | ErrSyntax
  | ErrRange
  | ErrBase nat
  | ErrBitSize nat
  | FlagErrParse
  | FlagErrRange
  | NumError string string err
  | Errorf string "string list" err
  | Failf string "string list"
  | FailfErr string "string list" err
  | LibError string

text \<open>\<open>errors.Is\<close>: the error itself or one it wraps (\<open>Errorf\<close> and \<open>NumError\<close> unwrap).\<close>

fun Is :: "err \<Rightarrow> err \<Rightarrow> bool" where
  "Is (Errorf f a w) target = (Errorf f a w = target \<or> Is w target)"
| "Is (NumError f n w) target = (NumError f n w = target \<or> Is w target)"
| "Is e target = (e = target)"

section \<open>The conversions of \<open>strconv\<close>\<close>

definition IntSize :: nat where
  "IntSize = 64"

definition maxUint64 :: nat where
  "maxUint64 = 2 ^ 64 - 1"

definition syntaxError :: "string \<Rightarrow> string \<Rightarrow> err" where
  "syntaxError fn str = NumError fn str ErrSyntax"

definition rangeError :: "string \<Rightarrow> string \<Rightarrow> err" where
  "rangeError fn str = NumError fn str ErrRange"

definition ParseBool :: "string \<Rightarrow> bool \<times> err option" where
  "ParseBool str =
     (if str \<in> {''1'', ''t'', ''T'', ''true'', ''TRUE'', ''True''} then (True, None)
      else if str \<in> {''0'', ''f'', ''F'', ''false'', ''FALSE'', ''False''} then (False, None)
      else (False, Some (syntaxError ''ParseBool'' str)))"

text \<open>The value of a digit byte: decimal digits, then letters of either case from 10.\<close>

definition digitVal :: "char \<Rightarrow> nat option" where
  "digitVal c =
     (if isNum c then Some (byte c - 48)
      else if isLow c then Some (byte c - 97 + 10)
      else if isCap c then Some (byte c - 65 + 10)
      else None)"

text \<open>\<open>underscoreOK\<close>: underscores may only separate digits (or follow a base prefix).\<close>

definition isHexLetter :: "char \<Rightarrow> bool" where
  "isHexLetter c = ((97 \<le> byte c \<and> byte c \<le> 102) \<or> (65 \<le> byte c \<and> byte c \<le> 70))"

fun underscoreLoop :: "bool \<Rightarrow> char \<Rightarrow> string \<Rightarrow> bool" where
  "underscoreLoop hex saw [] = (saw \<noteq> CHR ''_'')"
| "underscoreLoop hex saw (c # cs) =
     (if isNum c \<or> (hex \<and> isHexLetter c) then underscoreLoop hex (CHR ''0'') cs
      else if c = CHR ''_'' then
        (if saw \<noteq> CHR ''0'' then False else underscoreLoop hex (CHR ''_'') cs)
      else if saw = CHR ''_'' then False
      else underscoreLoop hex (CHR ''!'') cs)"

definition isBasePrefix :: "string \<Rightarrow> bool" where
  "isBasePrefix s =
     (case s of
        a # b # _ \<Rightarrow> a = CHR ''0'' \<and> b \<in> {CHR ''b'', CHR ''B'', CHR ''o'', CHR ''O'', CHR ''x'', CHR ''X''}
      | _ \<Rightarrow> False)"

definition underscoreOK :: "string \<Rightarrow> bool" where
  "underscoreOK s0 =
     (let s = (case s0 of c # cs \<Rightarrow> if c = CHR ''-'' \<or> c = CHR ''+'' then cs else s0 | [] \<Rightarrow> s0)
      in if isBasePrefix s
         then underscoreLoop (s ! 1 = CHR ''x'' \<or> s ! 1 = CHR ''X'') (CHR ''0'') (drop 2 s)
         else underscoreLoop False (CHR ''^'') s)"

text \<open>
  The digit loop of \<open>strconv.ParseUint\<close> over unsigned 64-bit numbers: \<open>n * base\<close> cannot
  overflow below the cutoff, and the addition of the digit wraps around at \<open>2 ^ 64\<close>.
\<close>

fun uintLoop :: "nat \<Rightarrow> bool \<Rightarrow> nat \<Rightarrow> nat \<Rightarrow> string \<Rightarrow> nat \<Rightarrow> bool \<Rightarrow> string \<Rightarrow> nat \<times> err option" where
  "uintLoop base base0 cutoff maxVal s0 n underscores [] =
     (if underscores \<and> \<not> underscoreOK s0 then (0, Some (syntaxError ''ParseUint'' s0))
      else (n, None))"
| "uintLoop base base0 cutoff maxVal s0 n underscores (c # cs) =
     (if c = CHR ''_'' \<and> base0 then uintLoop base base0 cutoff maxVal s0 n True cs
      else case digitVal c of
        None \<Rightarrow> (0, Some (syntaxError ''ParseUint'' s0))
      | Some d \<Rightarrow>
          if d \<ge> base then (0, Some (syntaxError ''ParseUint'' s0))
          else if n \<ge> cutoff then (maxVal, Some (rangeError ''ParseUint'' s0))
          else (let m = n * base; n1 = (m + d) mod 2 ^ 64
                in if n1 < m \<or> n1 > maxVal then (maxVal, Some (rangeError ''ParseUint'' s0))
                   else uintLoop base base0 cutoff maxVal s0 n1 underscores cs))"

text \<open>For base 0 the prefix selects the base: \<open>0b\<close>, \<open>0o\<close>, \<open>0x\<close>, or a leading \<open>0\<close> for octal.\<close>

definition basePrefix :: "string \<Rightarrow> nat \<times> string" where
  "basePrefix s =
     (case s of
        [] \<Rightarrow> (10, s)
      | a # r \<Rightarrow>
          if a = CHR ''0'' then
            (if length s \<ge> 3 \<and> (s ! 1 = CHR ''b'' \<or> s ! 1 = CHR ''B'') then (2, drop 2 s)
             else if length s \<ge> 3 \<and> (s ! 1 = CHR ''o'' \<or> s ! 1 = CHR ''O'') then (8, drop 2 s)
             else if length s \<ge> 3 \<and> (s ! 1 = CHR ''x'' \<or> s ! 1 = CHR ''X'') then (16, drop 2 s)
             else (8, r))
          else (10, s))"

definition ParseUint :: "string \<Rightarrow> nat \<Rightarrow> nat \<Rightarrow> nat \<times> err option" where
  "ParseUint s base bitSize =
     (if s = [] then (0, Some (syntaxError ''ParseUint'' s))
      else if \<not> (base = 0 \<or> (2 \<le> base \<and> base \<le> 36))
        then (0, Some (NumError ''ParseUint'' s (ErrBase base)))
      else if bitSize > 64 then (0, Some (NumError ''ParseUint'' s (ErrBitSize bitSize)))
      else
        (let (b, digits) = (if base = 0 then basePrefix s else (base, s));
             bits = (if bitSize = 0 then IntSize else bitSize);
             cutoff = maxUint64 div b + 1;
             maxVal = 2 ^ bits - 1
         in uintLoop b (base = 0) cutoff maxVal s 0 False digits))"

text \<open>
  \<open>strconv.ParseInt\<close>: the sign is picked off, the rest is parsed unsigned and checked against
  the signed range; errors name \<open>ParseInt\<close> and the whole input.
\<close>

definition ParseInt :: "string \<Rightarrow> nat \<Rightarrow> nat \<Rightarrow> int \<times> err option" where
  "ParseInt s0 base bitSize =
     (if s0 = [] then (0, Some (syntaxError ''ParseInt'' s0))
      else
        (let neg = (hd s0 = CHR ''-'');
             s = (if hd s0 = CHR ''+'' \<or> hd s0 = CHR ''-'' then tl s0 else s0);
             (un, e) = ParseUint s base bitSize
         in case e of
              Some (NumError fn num cause) \<Rightarrow>
                if cause \<noteq> ErrRange then (0, Some (NumError ''ParseInt'' s0 cause))
                else
                  (let bits = (if bitSize = 0 then IntSize else bitSize);
                       cutoff = 2 ^ (bits - 1)
                   in if \<not> neg \<and> un \<ge> cutoff then (int cutoff - 1, Some (rangeError ''ParseInt'' s0))
                      else if neg \<and> un > cutoff then (- int cutoff, Some (rangeError ''ParseInt'' s0))
                      else (if neg then - int un else int un, None))
            | Some other \<Rightarrow> (0, Some other)
            | None \<Rightarrow>
                (let bits = (if bitSize = 0 then IntSize else bitSize);
                     cutoff = 2 ^ (bits - 1)
                 in if \<not> neg \<and> un \<ge> cutoff then (int cutoff - 1, Some (rangeError ''ParseInt'' s0))
                    else if neg \<and> un > cutoff then (- int cutoff, Some (rangeError ''ParseInt'' s0))
                    else (if neg then - int un else int un, None))))"

text \<open>
  \<open>strconv.Atoi\<close> is \<open>ParseInt(s, 10, 0)\<close> with the error's function name replaced (its fast
  path for short inputs computes the same result).
\<close>

definition Atoi :: "string \<Rightarrow> int \<times> err option" where
  "Atoi s =
     (case ParseInt s 10 0 of
        (i, Some (NumError fn num cause)) \<Rightarrow> (i, Some (NumError ''Atoi'' num cause))
      | r \<Rightarrow> r)"

section \<open>Types and values seen through \<open>reflect\<close>\<close>

datatype kind =
    KInvalid | KBool | KInt | KInt8 | KInt16 | KInt32 | KInt64
  | KUint | KUint8 | KUint16 | KUint32 | KUint64 | KUintptr
  | KFloat32 | KFloat64 | KComplex64 | KComplex128
  | KArray | KChan | KFunc | KInterface | KMap | KPtr | KSlice | KString | KStruct
  | KUnsafePointer

text \<open>\<open>reflect.Kind.String\<close>, as \<open>%v\<close> prints a kind.\<close>

fun kindString :: "kind \<Rightarrow> string" where
  "kindString KInvalid = ''invalid''"
| "kindString KBool = ''bool''"
| "kindString KInt = ''int''"
| "kindString KInt8 = ''int8''"
| "kindString KInt16 = ''int16''"
| "kindString KInt32 = ''int32''"
| "kindString KInt64 = ''int64''"
| "kindString KUint = ''uint''"
| "kindString KUint8 = ''uint8''"
| "kindString KUint16 = ''uint16''"
| "kindString KUint32 = ''uint32''"
| "kindString KUint64 = ''uint64''"
| "kindString KUintptr = ''uintptr''"
| "kindString KFloat32 = ''float32''"
| "kindString KFloat64 = ''float64''"
| "kindString KComplex64 = ''complex64''"
| "kindString KComplex128 = ''complex128''"
| "kindString KArray = ''array''"
| "kindString KChan = ''chan''"
| "kindString KFunc = ''func''"
| "kindString KInterface = ''interface''"
| "kindString KMap = ''map''"
| "kindString KPtr = ''ptr''"
| "kindString KSlice = ''slice''"
| "kindString KString = ''string''"
| "kindString KStruct = ''struct''"
| "kindString KUnsafePointer = ''unsafe.Pointer''"

text \<open>
  The types a configuration can mention. \<open>TBool\<close> to \<open>TFloat64\<close> are the predeclared types and
  \<open>time.Duration\<close>; \<open>TURL\<close>, \<open>TTime\<close>, \<open>TStringSlice\<close> and \<open>TIntSlice\<close> are the package's own
  flag types; \<open>TStruct\<close> is any other struct type, with its fields in declaration order;
  \<open>TOther k\<close> is any other type, of kind \<open>k\<close> (a map, a named boolean, an \<open>int8\<close>, ...).
  A struct field is a \<open>reflect.StructField\<close>: its name, its package path (empty exactly for an
  exported field), its type and its tag as key-value pairs.
\<close>

datatype gtype =
    TBool | TString | TUint | TUint64 | TInt | TInt64 | TDuration | TFloat64
  | TURL | TTime | TStringSlice | TIntSlice
  | TStruct "sfield list"
  | TPtr gtype
  | TOther kind
and sfield = StructField (Name: string) (PkgPath: string) (Type: gtype) (Tag: "(string \<times> string) list")

fun kind_of :: "gtype \<Rightarrow> kind" where
  "kind_of TBool = KBool"
| "kind_of TString = KString"
| "kind_of TUint = KUint"
| "kind_of TUint64 = KUint64"
| "kind_of TInt = KInt"
| "kind_of TInt64 = KInt64"
| "kind_of TDuration = KInt64"
| "kind_of TFloat64 = KFloat64"
| "kind_of TURL = KStruct"
| "kind_of TTime = KStruct"
| "kind_of TStringSlice = KSlice"
| "kind_of TIntSlice = KSlice"
| "kind_of (TStruct fs) = KStruct"
| "kind_of (TPtr t) = KPtr"
| "kind_of (TOther k) = k"

text \<open>\<open>reflect.StructTag.Get\<close>: the value of the first pair with the key, or the empty string.\<close>

definition TagGet :: "(string \<times> string) list \<Rightarrow> string \<Rightarrow> string" where
  "TagGet tag key = (case map_of tag key of Some v \<Rightarrow> v | None \<Rightarrow> [])"

text \<open>\<open>reflect.StructField.IsExported\<close>: the package path is empty.\<close>

definition IsExported :: "sfield \<Rightarrow> bool" where
  "IsExported sf = (PkgPath sf = [])"

text \<open>
  Values. Floating-point numbers, URLs and times are values of a type \<open>'x\<close> that only the
  libraries read; integers carry the number they hold.
\<close>

datatype 'x gvalue =
    VBool bool | VString string | VUint nat | VUint64 nat | VInt int | VInt64 int
  | VDuration int | VFloat64 'x | VURL 'x | VTime 'x
  | VStringSlice "string list" | VIntSlice "int list"
  | VStruct "'x gvalue list"
  | VOther

text \<open>A pointer into the configuration: the field indices from the root to the variable.\<close>

type_synonym ptr = "nat list"

fun getPath :: "ptr \<Rightarrow> 'x gvalue \<Rightarrow> 'x gvalue" where
  "getPath [] v = v"
| "getPath (i # p) (VStruct vs) = (if i < length vs then getPath p (vs ! i) else VOther)"
| "getPath (i # p) v = VOther"

fun setPath :: "ptr \<Rightarrow> 'x gvalue \<Rightarrow> 'x gvalue \<Rightarrow> 'x gvalue" where
  "setPath [] new v = new"
| "setPath (i # p) new (VStruct vs) =
     (if i < length vs then VStruct (vs[i := setPath p new (vs ! i)]) else VStruct vs)"
| "setPath (i # p) new v = v"

text \<open>The argument of the resolution, an \<open>interface{}\<close>: nil, a value that is not a pointer,
  or a pointer (nil, or the address of a variable of the configuration).\<close>

datatype iface = INil | IVal gtype | IPtr gtype "ptr option"

section \<open>The libraries and declarations outside this file\<close>

text \<open>
  The parsers of floating-point numbers and durations, the \<open>Set\<close> methods and the field lists
  of the package's flag types, and the zero values of the library types are parameters. A
  \<open>Set\<close> method takes the receiver's value and the text, and gives the receiver's new value
  and its error.
\<close>

record 'x ext =
  ParseFloat :: "string \<Rightarrow> 'x \<times> err option"
  ParseDuration :: "string \<Rightarrow> int \<times> err option"
  URL_Set :: "'x \<Rightarrow> string \<Rightarrow> 'x \<times> err option"
  Time_Set :: "'x \<Rightarrow> string \<Rightarrow> 'x \<times> err option"
  StringSlice_Set :: "string list \<Rightarrow> string \<Rightarrow> string list \<times> err option"
  IntSlice_Set :: "int list \<Rightarrow> string \<Rightarrow> int list \<times> err option"
  zeroFloat64 :: 'x
  zeroURL :: 'x
  zeroTime :: 'x
  URL_fields :: "sfield list"
  Time_fields :: "sfield list"

text \<open>\<open>reflect.Type.NumField\<close> and \<open>Field\<close>: the fields of a struct type.\<close>

fun fieldsOf :: "'x ext \<Rightarrow> gtype \<Rightarrow> sfield list" where
  "fieldsOf ext (TStruct fs) = fs"
| "fieldsOf ext TURL = URL_fields ext"
| "fieldsOf ext TTime = Time_fields ext"
| "fieldsOf ext t = []"

section \<open>The flag set of package \<open>flag\<close>\<close>

text \<open>
  A registered flag: its name, its usage text and its value, which is the pointer to the
  variable it sets and the variable's type. (The default value's text, which only the usage
  message prints, is left out.)
\<close>

record Flag =
  FlagName :: string
  Usage :: string
  Value :: "ptr \<times> gtype"

record FlagSet =
  setName :: string
  formal :: "string \<rightharpoonup> Flag"
  actual :: "string \<rightharpoonup> Flag"
  args :: "string list"

datatype panic = PanicMsg string "string list" | PanicErr err

text \<open>How a call ends: it returns (nil or an error), the process exits, or it panics.\<close>

datatype outcome = Returned "err option" | Exited int | Panicked panic

text \<open>
  The command line, with the state its calls change: \<open>outputLog\<close> holds what has been written
  to the output stream (format and error), \<open>memory\<close> is the memory the configuration pointer
  refers to, and \<open>lookups\<close> lists the names passed to \<open>lookupEnvFunc\<close> so far.
\<close>

record 'x comandLine =
  flagSet :: FlagSet
  outputLog :: "(string \<times> err) list"
  lookupEnvFunc :: "string \<Rightarrow> string option"
  name :: string
  errorHandling :: int
  helpSeen :: bool
  memory :: "'x gvalue"
  lookups :: "string list"

definition ContinueOnError :: int where "ContinueOnError = 0"
definition ExitOnError :: int where "ExitOnError = 1"
definition PanicOnError :: int where "PanicOnError = 2"

definition NewFlagSet :: "string \<Rightarrow> FlagSet" where
  "NewFlagSet nm = \<lparr>setName = nm, formal = Map.empty, actual = Map.empty, args = []\<rparr>"

text \<open>\<open>newCommandLine\<close>, given the process environment and the memory of the configuration.\<close>

definition newCommandLine :: "string \<Rightarrow> (string \<Rightarrow> string option) \<Rightarrow> 'x gvalue \<Rightarrow> 'x comandLine" where
  "newCommandLine nm osLookupEnv mem =
     \<lparr>flagSet = NewFlagSet nm, outputLog = [], lookupEnvFunc = osLookupEnv, name = nm,
      errorHandling = ExitOnError, helpSeen = False, memory = mem, lookups = []\<rparr>"

text \<open>Assignment through a pointer.\<close>

definition store :: "ptr \<Rightarrow> 'x gvalue \<Rightarrow> 'x comandLine \<Rightarrow> 'x comandLine" where
  "store p v cl = cl\<lparr>memory := setPath p v (memory cl)\<rparr>"

text \<open>
  \<open>FlagSet.Var\<close>: a name that begins with a hyphen, contains an equals sign or is already
  registered panics; otherwise the flag is entered in \<open>formal\<close>.
\<close>

definition register :: "string \<Rightarrow> string \<Rightarrow> ptr \<times> gtype \<Rightarrow> 'x comandLine \<Rightarrow> 'x comandLine" where
  "register nm usage val cl =
     cl\<lparr>flagSet := (flagSet cl)\<lparr>formal := (formal (flagSet cl))
           (nm \<mapsto> \<lparr>FlagName = nm, Usage = usage, Value = val\<rparr>)\<rparr>\<rparr>"

definition Var :: "ptr \<times> gtype \<Rightarrow> string \<Rightarrow> string \<Rightarrow> 'x comandLine \<Rightarrow> outcome \<times> 'x comandLine" where
  "Var val nm usage cl =
     (if HasPrefix nm ''-'' then (Panicked (PanicMsg ''flag %q begins with -'' [nm]), cl)
      else if CHR ''='' \<in> set nm then (Panicked (PanicMsg ''flag %q contains ='' [nm]), cl)
      else if formal (flagSet cl) nm \<noteq> None then
        (if setName (flagSet cl) = [] then (Panicked (PanicMsg ''flag redefined: %s'' [nm]), cl)
         else (Panicked (PanicMsg ''%s flag redefined: %s'' [setName (flagSet cl), nm]), cl))
      else (Returned None, register nm usage val cl))"

text \<open>
  \<open>BoolVar\<close>, \<open>StringVar\<close>, \<open>UintVar\<close>, \<open>Uint64Var\<close>, \<open>IntVar\<close>, \<open>Int64Var\<close>, \<open>DurationVar\<close> and
  \<open>Float64Var\<close>: the default is assigned through the pointer, then the flag is registered.
\<close>

definition TypedVar :: "ptr \<Rightarrow> gtype \<Rightarrow> string \<Rightarrow> 'x gvalue \<Rightarrow> string \<Rightarrow> 'x comandLine \<Rightarrow> outcome \<times> 'x comandLine" where
  "TypedVar p t nm v usage cl = Var (p, t) nm usage (store p v cl)"

section \<open>The command line: coercion of a text to a field\<close>

definition parseBool :: "ptr \<Rightarrow> string \<Rightarrow> string \<Rightarrow> string \<Rightarrow> 'x comandLine \<Rightarrow> outcome \<times> 'x comandLine" where
  "parseBool p flag value usage cl =
     (if value = [] then TypedVar p TBool flag (VBool False) usage cl
      else case ParseBool value of
             (val, Some e) \<Rightarrow> (Returned (Some (Errorf ''parsing bool %q: %w'' [value] e)), cl)
           | (val, None) \<Rightarrow> TypedVar p TBool flag (VBool val) usage cl)"

definition parseUint :: "ptr \<Rightarrow> string \<Rightarrow> string \<Rightarrow> string \<Rightarrow> 'x comandLine \<Rightarrow> outcome \<times> 'x comandLine" where
  "parseUint p flag value usage cl =
     (if value = [] then TypedVar p TUint flag (VUint 0) usage cl
      else case ParseUint value 10 32 of
             (val, Some e) \<Rightarrow> (Returned (Some (Errorf ''parsing uint %q: %w'' [value] e)), cl)
           | (val, None) \<Rightarrow> TypedVar p TUint flag (VUint val) usage cl)"

definition parseUint64 :: "ptr \<Rightarrow> string \<Rightarrow> string \<Rightarrow> string \<Rightarrow> 'x comandLine \<Rightarrow> outcome \<times> 'x comandLine" where
  "parseUint64 p flag value usage cl =
     (if value = [] then TypedVar p TUint64 flag (VUint64 0) usage cl
      else case ParseUint value 10 64 of
             (val, Some e) \<Rightarrow> (Returned (Some (Errorf ''parsing uint64 %q: %w'' [value] e)), cl)
           | (val, None) \<Rightarrow> TypedVar p TUint64 flag (VUint64 val) usage cl)"

definition parseInt :: "ptr \<Rightarrow> string \<Rightarrow> string \<Rightarrow> string \<Rightarrow> 'x comandLine \<Rightarrow> outcome \<times> 'x comandLine" where
  "parseInt p flag value usage cl =
     (if value = [] then TypedVar p TInt flag (VInt 0) usage cl
      else case Atoi value of
             (val, Some e) \<Rightarrow> (Returned (Some (Errorf ''parsing int %q: %w'' [value] e)), cl)
           | (val, None) \<Rightarrow> TypedVar p TInt flag (VInt val) usage cl)"

definition parseInt64 :: "ptr \<Rightarrow> string \<Rightarrow> string \<Rightarrow> string \<Rightarrow> 'x comandLine \<Rightarrow> outcome \<times> 'x comandLine" where
  "parseInt64 p flag value usage cl =
     (if value = [] then TypedVar p TInt64 flag (VInt64 0) usage cl
      else case ParseInt value 10 64 of
             (val, Some e) \<Rightarrow> (Returned (Some (Errorf ''parsing int64 %q: %w'' [value] e)), cl)
           | (val, None) \<Rightarrow> TypedVar p TInt64 flag (VInt64 val) usage cl)"

definition parseDuration :: "'x ext \<Rightarrow> ptr \<Rightarrow> string \<Rightarrow> string \<Rightarrow> string \<Rightarrow> 'x comandLine \<Rightarrow> outcome \<times> 'x comandLine" where
  "parseDuration ext p flag value usage cl =
     (if value = [] then TypedVar p TDuration flag (VDuration 0) usage cl
      else case ParseDuration ext value of
             (val, Some e) \<Rightarrow> (Returned (Some (Errorf ''parsing duration %q: %w'' [value] e)), cl)
           | (val, None) \<Rightarrow> TypedVar p TDuration flag (VDuration val) usage cl)"

definition parseFloat64 :: "'x ext \<Rightarrow> ptr \<Rightarrow> string \<Rightarrow> string \<Rightarrow> string \<Rightarrow> 'x comandLine \<Rightarrow> outcome \<times> 'x comandLine" where
  "parseFloat64 ext p flag value usage cl =
     (if value = [] then TypedVar p TFloat64 flag (VFloat64 (zeroFloat64 ext)) usage cl
      else case ParseFloat ext value of
             (val, Some e) \<Rightarrow> (Returned (Some (Errorf ''parsing float64 %q: %w'' [value] e)), cl)
           | (val, None) \<Rightarrow> TypedVar p TFloat64 flag (VFloat64 val) usage cl)"

text \<open>The error of the string list's \<open>Set\<close> is dropped: \<open>_ = ss.Set(value)\<close>.\<close>

definition parseStringSlice :: "'x ext \<Rightarrow> ptr \<Rightarrow> string \<Rightarrow> string \<Rightarrow> string \<Rightarrow> 'x comandLine \<Rightarrow> outcome \<times> 'x comandLine" where
  "parseStringSlice ext p flag value usage cl =
     (if value = [] then Var (p, TStringSlice) flag usage (store p (VStringSlice []) cl)
      else case StringSlice_Set ext [] value of
             (ss, e) \<Rightarrow> Var (p, TStringSlice) flag usage (store p (VStringSlice ss) cl))"

definition parseIntSlice :: "'x ext \<Rightarrow> ptr \<Rightarrow> string \<Rightarrow> string \<Rightarrow> string \<Rightarrow> 'x comandLine \<Rightarrow> outcome \<times> 'x comandLine" where
  "parseIntSlice ext p flag value usage cl =
     (if value = [] then Var (p, TIntSlice) flag usage (store p (VIntSlice []) cl)
      else case IntSlice_Set ext [] value of
             (is, Some e) \<Rightarrow> (Returned (Some e), cl)
           | (is, None) \<Rightarrow> Var (p, TIntSlice) flag usage (store p (VIntSlice is) cl))"

definition parseURL :: "'x ext \<Rightarrow> ptr \<Rightarrow> string \<Rightarrow> string \<Rightarrow> string \<Rightarrow> 'x comandLine \<Rightarrow> outcome \<times> 'x comandLine" where
  "parseURL ext p flag value usage cl =
     (if value = [] then Var (p, TURL) flag usage (store p (VURL (zeroURL ext)) cl)
      else case URL_Set ext (zeroURL ext) value of
             (u, Some e) \<Rightarrow> (Returned (Some e), cl)
           | (u, None) \<Rightarrow> Var (p, TURL) flag usage (store p (VURL u) cl))"

definition parseTime :: "'x ext \<Rightarrow> ptr \<Rightarrow> string \<Rightarrow> string \<Rightarrow> string \<Rightarrow> 'x comandLine \<Rightarrow> outcome \<times> 'x comandLine" where
  "parseTime ext p flag value usage cl =
     (if value = [] then Var (p, TTime) flag usage (store p (VTime (zeroTime ext)) cl)
      else case Time_Set ext (zeroTime ext) value of
             (t, Some e) \<Rightarrow> (Returned (Some e), cl)
           | (t, None) \<Rightarrow> Var (p, TTime) flag usage (store p (VTime t) cl))"

text \<open>
  \<open>parseValue\<close> switches on the kind and asserts the pointer's type. The pointer is the
  address \<open>p\<close> of a variable of type \<open>t\<close>. A forced type assertion (\<open>varPointer.(*bool)\<close>) on a
  pointer of another type panics; the type switches of the kinds \<open>Int64\<close>, \<open>Struct\<close> and \<open>Slice\<close>
  fall through to the final error.
\<close>

definition assertionPanic :: "gtype \<Rightarrow> 'x comandLine \<Rightarrow> outcome \<times> 'x comandLine" where
  "assertionPanic t cl = (Panicked (PanicMsg ''interface conversion: interface {} is not %s'' [kindString (kind_of t)]), cl)"

definition unsupported :: "kind \<Rightarrow> err" where
  "unsupported k = Errorf ''parsing value: %w: %v'' [kindString k] ErrUnsupportedType"

definition parseValue :: "'x ext \<Rightarrow> kind \<Rightarrow> ptr \<times> gtype \<Rightarrow> string \<Rightarrow> string \<Rightarrow> string \<Rightarrow> 'x comandLine \<Rightarrow> outcome \<times> 'x comandLine" where
  "parseValue ext k varPointer flag value usage cl =
     (let p = fst varPointer; t = snd varPointer in
      case k of
        KBool \<Rightarrow> if t = TBool then parseBool p flag value usage cl else assertionPanic t cl
      | KString \<Rightarrow> if t = TString then TypedVar p TString flag (VString value) usage cl
                    else assertionPanic t cl
      | KUint \<Rightarrow> if t = TUint then parseUint p flag value usage cl else assertionPanic t cl
      | KUint64 \<Rightarrow> if t = TUint64 then parseUint64 p flag value usage cl else assertionPanic t cl
      | KInt \<Rightarrow> if t = TInt then parseInt p flag value usage cl else assertionPanic t cl
      | KInt64 \<Rightarrow> if t = TDuration then parseDuration ext p flag value usage cl
                   else if t = TInt64 then parseInt64 p flag value usage cl
                   else (Returned (Some (unsupported k)), cl)
      | KFloat64 \<Rightarrow> if t = TFloat64 then parseFloat64 ext p flag value usage cl
                     else assertionPanic t cl
      | KStruct \<Rightarrow> if t = TURL then parseURL ext p flag value usage cl
                    else if t = TTime then parseTime ext p flag value usage cl
                    else (Returned (Some (unsupported k)), cl)
      | KSlice \<Rightarrow> if t = TStringSlice then parseStringSlice ext p flag value usage cl
                   else if t = TIntSlice then parseIntSlice ext p flag value usage cl
                   else (Returned (Some (unsupported k)), cl)
      | _ \<Rightarrow> (Returned (Some (unsupported k)), cl))"

section \<open>The command line: names\<close>

definition flagName :: "sfield \<Rightarrow> string \<Rightarrow> string" where
  "flagName sf prefix =
     (if TagGet (Tag sf) ''flag'' \<noteq> [] then TagGet (Tag sf) ''flag''
      else ToKebab (if prefix \<noteq> [] then prefix @ ''-'' @ Name sf else Name sf))"

definition envVarName :: "'x comandLine \<Rightarrow> sfield \<Rightarrow> string \<Rightarrow> string" where
  "envVarName cl sf prefix =
     (if TagGet (Tag sf) ''env'' \<noteq> [] then TagGet (Tag sf) ''env''
      else ToScreamingSnake
             (if prefix \<noteq> [] then name cl @ ''_'' @ prefix @ ''_'' @ Name sf
              else name cl @ ''_'' @ Name sf))"

definition usage :: "sfield \<Rightarrow> string \<Rightarrow> string \<Rightarrow> string" where
  "usage sf env prefix =
     (if TagGet (Tag sf) ''help'' \<noteq> [] then TagGet (Tag sf) ''help'' @ '' (env '' @ env @ '')''
      else ToDelimited (if prefix \<noteq> [] then prefix @ '' '' @ Name sf else Name sf) (CHR '' '')
             @ '' (env '' @ env @ '')'')"

definition isHelpToken :: "string \<Rightarrow> bool" where
  "isHelpToken f = (f = ''--help'' \<or> f = ''-help'' \<or> f = ''--h'' \<or> f = ''-h'')"

definition parseHelp :: "string list \<Rightarrow> 'x comandLine \<Rightarrow> 'x comandLine" where
  "parseHelp flags cl = (if list_ex isHelpToken flags then cl\<lparr>helpSeen := True\<rparr> else cl)"

definition newPrefix :: "sfield \<Rightarrow> string \<Rightarrow> string" where
  "newPrefix sf prefix = (if prefix \<noteq> [] then prefix @ ''-'' @ Name sf else Name sf)"

section \<open>The command line: the walk over the fields\<close>

text \<open>
  \<open>subParse\<close> and the body of its loop over the fields, \<open>fieldLoop\<close>, from field \<open>i\<close> of the
  struct at address \<open>base\<close>. The address of an unexported field cannot be turned into an
  interface: \<open>Interface\<close> panics. A struct field that is neither a URL nor a time is walked
  with the extended prefix; any other field is looked up in the environment (every time: the
  lookup is made before help mode is tested) and coerced from the environment's text or from
  the \<open>def\<close> tag.
\<close>

lemma fieldsOf_size:
  "t \<noteq> TURL \<Longrightarrow> t \<noteq> TTime \<Longrightarrow> size_list size (fieldsOf ext t) \<le> size t"
  by (cases t) auto

lemma Type_size: "size (Type field) < size field"
  by (cases field) auto

function (sequential)
  subParse :: "'x ext \<Rightarrow> iface \<Rightarrow> string list \<Rightarrow> string \<Rightarrow> 'x comandLine \<Rightarrow> outcome \<times> 'x comandLine"
  and fieldLoop :: "'x ext \<Rightarrow> sfield list \<Rightarrow> nat \<Rightarrow> ptr \<Rightarrow> string list \<Rightarrow> string \<Rightarrow> 'x comandLine
                    \<Rightarrow> outcome \<times> 'x comandLine"
where
  "subParse ext (IPtr t a) flags prefix cl =
     (let cl1 = parseHelp flags cl in
      if kind_of t \<noteq> KStruct then (Returned (Some ErrInvalidConfigType), cl1)
      else case a of
             None \<Rightarrow> (Panicked (PanicMsg ''reflect: call of reflect.Value.NumField on zero Value'' []), cl1)
           | Some base \<Rightarrow> fieldLoop ext (fieldsOf ext t) 0 base flags prefix cl1)"
| "subParse ext config flags prefix cl = (Returned (Some ErrInvalidConfigType), parseHelp flags cl)"
| "fieldLoop ext [] i base flags prefix cl = (Returned None, cl)"
| "fieldLoop ext (field # rest) i base flags prefix cl =
     (let fname = flagName field prefix;
          ename = envVarName cl field prefix;
          use = usage field ename prefix;
          p = base @ [i]
      in if \<not> IsExported field then
           (Panicked (PanicMsg ''reflect.Value.Interface: cannot return value obtained from unexported field or method'' []), cl)
         else if kind_of (Type field) = KStruct \<and> Type field \<noteq> TURL \<and> Type field \<noteq> TTime then
           (case subParse ext (IPtr (Type field) (Some p)) flags (newPrefix field prefix) cl of
              (Returned None, cl') \<Rightarrow> fieldLoop ext rest (Suc i) base flags prefix cl'
            | (r, cl') \<Rightarrow> (r, cl'))
         else
           (let envVarValue = lookupEnvFunc cl ename;
                cl2 = cl\<lparr>lookups := lookups cl @ [ename]\<rparr>
            in if envVarValue \<noteq> None \<and> \<not> helpSeen cl2 then
                 (case parseValue ext (kind_of (Type field)) (p, Type field) fname (the envVarValue) use cl2 of
                    (Returned (Some e), cl') \<Rightarrow> (Returned (Some (Errorf ''%s env: %w'' [Name field] e)), cl')
                  | (Returned None, cl') \<Rightarrow> fieldLoop ext rest (Suc i) base flags prefix cl'
                  | (r, cl') \<Rightarrow> (r, cl'))
               else
                 (case parseValue ext (kind_of (Type field)) (p, Type field) fname (TagGet (Tag field) ''def'') use cl2 of
                    (Returned (Some e), cl') \<Rightarrow> (Returned (Some (Errorf ''%s def: %w'' [Name field] e)), cl')
                  | (Returned None, cl') \<Rightarrow> fieldLoop ext rest (Suc i) base flags prefix cl'
                  | (r, cl') \<Rightarrow> (r, cl'))))"
  by pat_completeness auto


termination
proof (relation "measure (\<lambda>x. case x of
          Inl (ext, cfg, _) \<Rightarrow> (case cfg of IPtr t a \<Rightarrow> 1 + size_list size (fieldsOf ext t) | _ \<Rightarrow> 0)
        | Inr (ext, fs, _) \<Rightarrow> size_list size fs)", goal_cases)
  case (3 ext field rest)
  then show ?case
    using fieldsOf_size [of "Type field" ext] Type_size [of field] by auto
qed auto

declare subParse.simps [simp del] fieldLoop.simps(2) [simp del]

section \<open>The final pass of the flag set over the arguments\<close>

text \<open>\<open>numError\<close> of package \<open>flag\<close>: syntax and range errors become the package's own.\<close>

definition numError :: "err option \<Rightarrow> err option" where
  "numError e =
     (case e of
        Some (NumError fn num cause) \<Rightarrow>
          if cause = ErrSyntax then Some FlagErrParse
          else if cause = ErrRange then Some FlagErrRange
          else e
      | _ \<Rightarrow> e)"

text \<open>
  \<open>Value.Set\<close> of a registered flag: \<open>setValue\<close> is the value it assigns and the error it
  returns, from the text and the variable's current value. The values of package \<open>flag\<close>
  assign what the parser returned even when it failed; the package's own flag types run their
  \<open>Set\<close> method on the variable. \<open>ValueSet\<close> assigns through the flag's pointer.
\<close>

definition setValue :: "'x ext \<Rightarrow> gtype \<Rightarrow> string \<Rightarrow> 'x gvalue \<Rightarrow> 'x gvalue \<times> err option" where
  "setValue ext t s cur =
     (case t of
        TBool \<Rightarrow> (case ParseBool s of (v, e) \<Rightarrow> (VBool v, if e \<noteq> None then Some FlagErrParse else None))
      | TString \<Rightarrow> (VString s, None)
      | TUint \<Rightarrow> (case ParseUint s 0 IntSize of (v, e) \<Rightarrow> (VUint v, numError e))
      | TUint64 \<Rightarrow> (case ParseUint s 0 64 of (v, e) \<Rightarrow> (VUint64 v, numError e))
      | TInt \<Rightarrow> (case ParseInt s 0 IntSize of (v, e) \<Rightarrow> (VInt v, numError e))
      | TInt64 \<Rightarrow> (case ParseInt s 0 64 of (v, e) \<Rightarrow> (VInt64 v, numError e))
      | TDuration \<Rightarrow> (case ParseDuration ext s of
                         (v, e) \<Rightarrow> (VDuration v, if e \<noteq> None then Some FlagErrParse else None))
      | TFloat64 \<Rightarrow> (case ParseFloat ext s of (v, e) \<Rightarrow> (VFloat64 v, numError e))
      | TURL \<Rightarrow> (case URL_Set ext (case cur of VURL u \<Rightarrow> u | _ \<Rightarrow> zeroURL ext) s of
                    (u, e) \<Rightarrow> (VURL u, e))
      | TTime \<Rightarrow> (case Time_Set ext (case cur of VTime u \<Rightarrow> u | _ \<Rightarrow> zeroTime ext) s of
                     (u, e) \<Rightarrow> (VTime u, e))
      | TStringSlice \<Rightarrow>
          (case StringSlice_Set ext (case cur of VStringSlice ss \<Rightarrow> ss | _ \<Rightarrow> []) s of
             (ss, e) \<Rightarrow> (VStringSlice ss, e))
      | TIntSlice \<Rightarrow>
          (case IntSlice_Set ext (case cur of VIntSlice ns \<Rightarrow> ns | _ \<Rightarrow> []) s of
             (ns, e) \<Rightarrow> (VIntSlice ns, e))
      | _ \<Rightarrow> (cur, None))"

definition ValueSet :: "'x ext \<Rightarrow> ptr \<times> gtype \<Rightarrow> string \<Rightarrow> 'x comandLine \<Rightarrow> err option \<times> 'x comandLine" where
  "ValueSet ext val s cl =
     (case setValue ext (snd val) s (getPath (fst val) (memory cl)) of
        (v, e) \<Rightarrow> (e, store (fst val) v cl))"

definition setArgs :: "string list \<Rightarrow> 'x comandLine \<Rightarrow> 'x comandLine" where
  "setArgs a cl = cl\<lparr>flagSet := (flagSet cl)\<lparr>args := a\<rparr>\<rparr>"

definition markActual :: "string \<Rightarrow> Flag \<Rightarrow> 'x comandLine \<Rightarrow> 'x comandLine" where
  "markActual nm fl cl = cl\<lparr>flagSet := (flagSet cl)\<lparr>actual := (actual (flagSet cl))(nm \<mapsto> fl)\<rparr>\<rparr>"

text \<open>
  \<open>FlagSet.parseOne\<close>: one flag of the remaining arguments. The result is whether a flag
  was seen, and the error. A name that is not registered is an error, a help request when
  it is \<open>help\<close> or \<open>h\<close>. (What the flag set prints, the error and the usage message, is not
  part of the state.)
\<close>

definition parseOne :: "'x ext \<Rightarrow> 'x comandLine \<Rightarrow> (bool \<times> err option) \<times> 'x comandLine" where
  "parseOne ext cl =
     (case args (flagSet cl) of
        [] \<Rightarrow> ((False, None), cl)
      | s # rest \<Rightarrow>
          if length s < 2 \<or> s ! 0 \<noteq> CHR ''-'' then ((False, None), cl)
          else if s ! 1 = CHR ''-'' \<and> length s = 2 then ((False, None), setArgs rest cl)
          else
            (let numMinuses = (if s ! 1 = CHR ''-'' then 2 else 1);
                 name0 = drop numMinuses s
             in if name0 = [] \<or> hd name0 = CHR ''-'' \<or> hd name0 = CHR ''=''
                then ((False, Some (Failf ''bad flag syntax: %s'' [s])), cl)
                else
                  (let cl1 = setArgs rest cl;
                       hasValue0 = (CHR ''='' \<in> set name0);
                       value0 = (if hasValue0 then tl (dropWhile (\<lambda>c. c \<noteq> CHR ''='') name0) else []);
                       nm = takeWhile (\<lambda>c. c \<noteq> CHR ''='') name0
                   in case formal (flagSet cl1) nm of
                        None \<Rightarrow>
                          if nm = ''help'' \<or> nm = ''h'' then ((False, Some ErrHelp), cl1)
                          else ((False, Some (Failf ''flag provided but not defined: -%s'' [nm])), cl1)
                      | Some fl \<Rightarrow>
                          if snd (Value fl) = TBool then
                            (if hasValue0 then
                               (case ValueSet ext (Value fl) value0 cl1 of
                                  (Some e, cl2) \<Rightarrow>
                                    ((False, Some (FailfErr ''invalid boolean value %q for -%s: %v'' [value0, nm] e)), cl2)
                                | (None, cl2) \<Rightarrow> ((True, None), markActual nm fl cl2))
                             else
                               (case ValueSet ext (Value fl) ''true'' cl1 of
                                  (Some e, cl2) \<Rightarrow>
                                    ((False, Some (FailfErr ''invalid boolean flag %s: %v'' [nm] e)), cl2)
                                | (None, cl2) \<Rightarrow> ((True, None), markActual nm fl cl2)))
                          else
                            (let takesNext = (\<not> hasValue0 \<and> rest \<noteq> []);
                                 hasValue = (hasValue0 \<or> takesNext);
                                 value = (if takesNext then hd rest else value0);
                                 cl2 = (if takesNext then setArgs (tl rest) cl1 else cl1)
                             in if \<not> hasValue
                                then ((False, Some (Failf ''flag needs an argument: -%s'' [nm])), cl2)
                                else
                                  (case ValueSet ext (Value fl) value cl2 of
                                     (Some e, cl3) \<Rightarrow>
                                       ((False, Some (FailfErr ''invalid value %q for flag -%s: %v'' [value, nm] e)), cl3)
                                   | (None, cl3) \<Rightarrow> ((True, None), markActual nm fl cl3))))))"

lemma args_store: "args (flagSet (store p v cl)) = args (flagSet cl)"
  by (simp add: store_def)

lemma args_ValueSet: "ValueSet ext val s cl = (e, cl') \<Longrightarrow> args (flagSet cl') = args (flagSet cl)"
  by (auto simp: ValueSet_def args_store split: prod.splits)

lemma parseOne_seen:
  assumes "parseOne ext cl = ((True, e), cl')"
  shows "length (args (flagSet cl')) < length (args (flagSet cl))"
proof (cases "args (flagSet cl)")
  case Nil
  with assms show ?thesis by (simp add: parseOne_def)
next
  case (Cons s rest)
  with assms show ?thesis
    by (auto simp: parseOne_def Let_def setArgs_def markActual_def
             split: if_splits option.splits prod.splits dest!: args_ValueSet)
qed

text \<open>\<open>FlagSet.Parse\<close> of a flag set that continues on error: flags are parsed until an
  argument is no flag or an error occurs, which is returned.\<close>

function ParseLoop :: "'x ext \<Rightarrow> 'x comandLine \<Rightarrow> err option \<times> 'x comandLine" where
  "ParseLoop ext cl =
     (case parseOne ext cl of
        ((True, e), cl') \<Rightarrow> ParseLoop ext cl'
      | ((False, e), cl') \<Rightarrow> (e, cl'))"
  by pat_completeness auto
termination
  by (relation "measure (\<lambda>(ext, cl). length (args (flagSet cl)))") (auto dest: parseOne_seen [OF sym])

definition FlagSetParse :: "'x ext \<Rightarrow> string list \<Rightarrow> 'x comandLine \<Rightarrow> err option \<times> 'x comandLine" where
  "FlagSetParse ext arguments cl = ParseLoop ext (setArgs arguments cl)"

section \<open>The command line: the resolution and the policy on errors\<close>

definition exit :: "err option \<Rightarrow> 'x comandLine \<Rightarrow> outcome \<times> 'x comandLine" where
  "exit err cl =
     (case err of
        None \<Rightarrow> (Returned None, cl)
      | Some e \<Rightarrow>
          if errorHandling cl = ContinueOnError then
            (if Is e ErrHelp then (Returned None, cl) else (Returned (Some e), cl))
          else if errorHandling cl = ExitOnError then
            (if helpSeen cl \<or> Is e ErrHelp then (Exited 0, cl)
             else (Exited 2, cl\<lparr>outputLog := outputLog cl @ [(''bee: %v'' @ [CHR 0x0A], e)]\<rparr>))
          else if errorHandling cl = PanicOnError then (Panicked (PanicErr e), cl)
          else (Returned None, cl))"

definition parse :: "'x ext \<Rightarrow> iface \<Rightarrow> string list \<Rightarrow> 'x comandLine \<Rightarrow> outcome \<times> 'x comandLine" where
  "parse ext config flags cl =
     (case subParse ext config flags [] cl of
        (Returned (Some e), cl1) \<Rightarrow> exit (Some e) cl1
      | (Returned None, cl1) \<Rightarrow> (case FlagSetParse ext flags cl1 of (e, cl2) \<Rightarrow> exit e cl2)
      | (r, cl1) \<Rightarrow> (r, cl1))"

section \<open>Notions for stating the properties\<close>

text \<open>
  A field is terminal when the walk does not descend into it. For a terminal field,
  \<open>fromEnv\<close> tells whether its text comes from the environment, \<open>sourceText\<close> is the text
  selected, \<open>phaseFormat\<close> the format that wraps its error, and \<open>resolveField\<close> the call of
  \<open>parseValue\<close> the loop makes for it.
\<close>

definition terminal :: "sfield \<Rightarrow> bool" where
  "terminal field =
     (\<not> (kind_of (Type field) = KStruct \<and> Type field \<noteq> TURL \<and> Type field \<noteq> TTime))"

definition fromEnv :: "'x comandLine \<Rightarrow> sfield \<Rightarrow> string \<Rightarrow> bool" where
  "fromEnv cl field prefix =
     (lookupEnvFunc cl (envVarName cl field prefix) \<noteq> None \<and> \<not> helpSeen cl)"

definition sourceText :: "'x comandLine \<Rightarrow> sfield \<Rightarrow> string \<Rightarrow> string" where
  "sourceText cl field prefix =
     (if fromEnv cl field prefix then the (lookupEnvFunc cl (envVarName cl field prefix))
      else TagGet (Tag field) ''def'')"

definition phaseFormat :: "'x comandLine \<Rightarrow> sfield \<Rightarrow> string \<Rightarrow> string" where
  "phaseFormat cl field prefix =
     (if fromEnv cl field prefix then ''%s env: %w'' else ''%s def: %w'')"

definition resolveField :: "'x ext \<Rightarrow> sfield \<Rightarrow> nat \<Rightarrow> ptr \<Rightarrow> string \<Rightarrow> 'x comandLine \<Rightarrow> outcome \<times> 'x comandLine" where
  "resolveField ext field i base prefix cl =
     parseValue ext (kind_of (Type field)) (base @ [i], Type field) (flagName field prefix)
       (sourceText cl field prefix) (usage field (envVarName cl field prefix) prefix)
       (cl\<lparr>lookups := lookups cl @ [envVarName cl field prefix]\<rparr>)"

text \<open>
  The types \<open>parseValue\<close> coerces, the zero value of each, and the value or error that the
  coercion of a text yields (\<open>parseValue_coerce\<close> below shows that \<open>parseValue\<close> computes
  exactly this, then assigns and registers).
\<close>

definition supportedTypes :: "gtype list" where
  "supportedTypes = [TBool, TString, TUint, TUint64, TInt, TInt64, TDuration, TFloat64,
                     TURL, TTime, TStringSlice, TIntSlice]"

fun zeroValue :: "'x ext \<Rightarrow> gtype \<Rightarrow> 'x gvalue" where
  "zeroValue ext TBool = VBool False"
| "zeroValue ext TString = VString []"
| "zeroValue ext TUint = VUint 0"
| "zeroValue ext TUint64 = VUint64 0"
| "zeroValue ext TInt = VInt 0"
| "zeroValue ext TInt64 = VInt64 0"
| "zeroValue ext TDuration = VDuration 0"
| "zeroValue ext TFloat64 = VFloat64 (zeroFloat64 ext)"
| "zeroValue ext TURL = VURL (zeroURL ext)"
| "zeroValue ext TTime = VTime (zeroTime ext)"
| "zeroValue ext TStringSlice = VStringSlice []"
| "zeroValue ext TIntSlice = VIntSlice []"
| "zeroValue ext t = VOther"

definition coerce :: "'x ext \<Rightarrow> gtype \<Rightarrow> string \<Rightarrow> err + 'x gvalue" where
  "coerce ext t source =
     (if t \<notin> set supportedTypes then Inl (unsupported (kind_of t))
      else if source = [] then Inr (zeroValue ext t)
      else case t of
        TBool \<Rightarrow> (case ParseBool source of
                     (v, Some e) \<Rightarrow> Inl (Errorf ''parsing bool %q: %w'' [source] e)
                   | (v, None) \<Rightarrow> Inr (VBool v))
      | TString \<Rightarrow> Inr (VString source)
      | TUint \<Rightarrow> (case ParseUint source 10 32 of
                     (v, Some e) \<Rightarrow> Inl (Errorf ''parsing uint %q: %w'' [source] e)
                   | (v, None) \<Rightarrow> Inr (VUint v))
      | TUint64 \<Rightarrow> (case ParseUint source 10 64 of
                       (v, Some e) \<Rightarrow> Inl (Errorf ''parsing uint64 %q: %w'' [source] e)
                     | (v, None) \<Rightarrow> Inr (VUint64 v))
      | TInt \<Rightarrow> (case Atoi source of
                    (v, Some e) \<Rightarrow> Inl (Errorf ''parsing int %q: %w'' [source] e)
                  | (v, None) \<Rightarrow> Inr (VInt v))
      | TInt64 \<Rightarrow> (case ParseInt source 10 64 of
                      (v, Some e) \<Rightarrow> Inl (Errorf ''parsing int64 %q: %w'' [source] e)
                    | (v, None) \<Rightarrow> Inr (VInt64 v))
      | TDuration \<Rightarrow> (case ParseDuration ext source of
                         (v, Some e) \<Rightarrow> Inl (Errorf ''parsing duration %q: %w'' [source] e)
                       | (v, None) \<Rightarrow> Inr (VDuration v))
      | TFloat64 \<Rightarrow> (case ParseFloat ext source of
                        (v, Some e) \<Rightarrow> Inl (Errorf ''parsing float64 %q: %w'' [source] e)
                      | (v, None) \<Rightarrow> Inr (VFloat64 v))
      | TURL \<Rightarrow> (case URL_Set ext (zeroURL ext) source of
                    (u, Some e) \<Rightarrow> Inl e
                  | (u, None) \<Rightarrow> Inr (VURL u))
      | TTime \<Rightarrow> (case Time_Set ext (zeroTime ext) source of
                     (u, Some e) \<Rightarrow> Inl e
                   | (u, None) \<Rightarrow> Inr (VTime u))
      | TStringSlice \<Rightarrow> Inr (VStringSlice (fst (StringSlice_Set ext [] source)))
      | TIntSlice \<Rightarrow> (case IntSlice_Set ext [] source of
                         (ns, Some e) \<Rightarrow> Inl e
                       | (ns, None) \<Rightarrow> Inr (VIntSlice ns))
      | _ \<Rightarrow> Inl (unsupported (kind_of t)))"

text \<open>
  What a call leaves alone: \<open>sameSettings\<close> for the walk (the policy, the names, the
  environment function and the output), \<open>flagFrame\<close> for the final pass (the settings, help
  mode, the lookups and the registered flags).
\<close>

definition sameSettings :: "'x comandLine \<Rightarrow> 'x comandLine \<Rightarrow> bool" where
  "sameSettings cl cl' =
     (errorHandling cl' = errorHandling cl \<and> name cl' = name cl \<and> lookupEnvFunc cl' = lookupEnvFunc cl
      \<and> outputLog cl' = outputLog cl \<and> setName (flagSet cl') = setName (flagSet cl))"

definition flagFrame :: "'x comandLine \<Rightarrow> 'x comandLine \<Rightarrow> bool" where
  "flagFrame cl cl' =
     (sameSettings cl cl' \<and> helpSeen cl' = helpSeen cl \<and> lookups cl' = lookups cl
      \<and> formal (flagSet cl') = formal (flagSet cl))"

text \<open>
  Paths into the memory: \<open>validPath\<close> holds when the path leads to a variable, \<open>diverge\<close>
  when two paths part at some index, and \<open>untouched base i\<close> describes the paths that a walk
  from field \<open>i\<close> of the struct at \<open>base\<close> does not assign. \<open>stepShape\<close> lists what a coercion
  step does to the state.
\<close>

fun validPath :: "ptr \<Rightarrow> 'x gvalue \<Rightarrow> bool" where
  "validPath [] v = True"
| "validPath (i # p) (VStruct vs) = (i < length vs \<and> validPath p (vs ! i))"
| "validPath (i # p) v = False"

fun diverge :: "ptr \<Rightarrow> ptr \<Rightarrow> bool" where
  "diverge (a # q) (b # p) = (a \<noteq> b \<or> diverge q p)"
| "diverge q p = False"

definition untouched :: "ptr \<Rightarrow> nat \<Rightarrow> ptr \<Rightarrow> bool" where
  "untouched base i q = (diverge q base \<or> (\<exists>j r. q = base @ j # r \<and> j < i))"

definition stepShape :: "ptr \<Rightarrow> gtype \<Rightarrow> string \<Rightarrow> string \<Rightarrow> outcome \<Rightarrow> 'x comandLine \<Rightarrow> 'x comandLine \<Rightarrow> bool" where
  "stepShape p t flag use res cl cl' =
     ((res \<noteq> Returned None \<and> (cl' = cl \<or> (\<exists>v. cl' = store p v cl)))
      \<or> (\<exists>v. cl' = register flag use (p, t) (store p v cl) \<and> res = Returned None
                \<and> formal (flagSet cl) flag = None \<and> \<not> HasPrefix flag ''-'' \<and> CHR ''='' \<notin> set flag))"

section \<open>Example inputs\<close>

text \<open>
  A library instance for the examples: the two list types split their text at commas (the
  integer list converts each element with \<open>Atoi\<close> and stops at the first failure), and every
  other text is refused by the parsers of floating-point numbers, durations, URLs and times.
\<close>

fun splitComma :: "string \<Rightarrow> string list" where
  "splitComma [] = [[]]"
| "splitComma (c # cs) =
     (if c = CHR '','' then [] # splitComma cs
      else (case splitComma cs of [] \<Rightarrow> [[c]] | x # xs \<Rightarrow> (c # x) # xs))"

fun atoiAll :: "string list \<Rightarrow> int list \<times> err option" where
  "atoiAll [] = ([], None)"
| "atoiAll (s # ss) =
     (case Atoi s of
        (n, Some e) \<Rightarrow> ([], Some e)
      | (n, None) \<Rightarrow> (case atoiAll ss of (ns, Some e) \<Rightarrow> ([], Some e) | (ns, None) \<Rightarrow> (n # ns, None)))"

definition exampleExt :: "unit ext" where
  "exampleExt =
     \<lparr>ParseFloat = (\<lambda>s. ((), Some (LibError ''strconv.ParseFloat''))),
      ParseDuration = (\<lambda>s. (0, Some (LibError ''time: invalid duration''))),
      URL_Set = (\<lambda>u s. (u, Some (LibError ''url''))),
      Time_Set = (\<lambda>t s. (t, Some (LibError ''time''))),
      StringSlice_Set = (\<lambda>ss s. (splitComma s, None)),
      IntSlice_Set = (\<lambda>ns s. case atoiAll (splitComma s) of (ms, Some e) \<Rightarrow> (ns, Some e) | (ms, None) \<Rightarrow> (ms, None)),
      zeroFloat64 = (), zeroURL = (), zeroTime = (),
      URL_fields = [], Time_fields = []\<rparr>"

text \<open>The record \<open>{Port int `def:"3000"`}\<close>, the environment \<open>COOL_PORT=8080\<close> and the command
  line of the command \<open>cool\<close>, which returns its errors.\<close>

definition portField :: sfield where
  "portField = StructField ''Port'' [] TInt [(''def'', ''3000'')]"

definition coolEnv :: "string \<Rightarrow> string option" where
  "coolEnv = (\<lambda>n. if n = ''COOL_PORT'' then Some ''8080'' else None)"

definition coolLine :: "(string \<Rightarrow> string option) \<Rightarrow> unit gvalue \<Rightarrow> unit comandLine" where
  "coolLine env mem = (newCommandLine ''cool'' env mem)\<lparr>errorHandling := ContinueOnError\<rparr>"

text \<open>The record \<open>{Hosts StringSlice `def:"mongo,,x"`}\<close>, an environment that sets its variable,
  and a library whose string list \<open>Set\<close> always returns an error beside the split text.\<close>

definition hostsField :: sfield where
  "hostsField = StructField ''Hosts'' [] TStringSlice [(''def'', ''mongo,,x'')]"

definition failingSetExt :: "unit ext" where
  "failingSetExt = exampleExt\<lparr>StringSlice_Set := (\<lambda>ss s. (splitComma s, Some (LibError ''set'')))\<rparr>"

definition hostsEnv :: "string \<Rightarrow> string option" where
  "hostsEnv = (\<lambda>n. if n = ''COOL_HOSTS'' then Some ''a,b'' else None)"


section \<open>Properties of the walk\<close>

lemma fieldLoop_terminal:
  assumes "IsExported field" "terminal field"
  shows "fieldLoop ext (field # rest) i base flags prefix cl =
           (case resolveField ext field i base prefix cl of
              (Returned (Some e), cl') \<Rightarrow>
                (Returned (Some (Errorf (phaseFormat cl field prefix) [Name field] e)), cl')
            | (Returned None, cl') \<Rightarrow> fieldLoop ext rest (Suc i) base flags prefix cl'
            | (r, cl') \<Rightarrow> (r, cl'))"
proof -
  have c: "(kind_of (Type field) = KStruct \<and> Type field \<noteq> TURL \<and> Type field \<noteq> TTime) = False"
    using assms(2) by (simp add: terminal_def)
  have e: "(\<not> IsExported field) = False"
    using assms(1) by simp
  show ?thesis
  proof (cases "fromEnv cl field prefix")
    case True
    then have f: "lookupEnvFunc cl (envVarName cl field prefix) \<noteq> None" "\<not> helpSeen cl"
      by (simp_all add: fromEnv_def)
    have pf: "phaseFormat cl field prefix = ''%s env: %w''"
      using True by (simp add: phaseFormat_def)
    show ?thesis
      unfolding pf
      by (subst fieldLoop.simps(2))
         (simp add: Let_def c e f True resolveField_def sourceText_def del: not_None_eq)
  next
    case False
    then have f: "(lookupEnvFunc cl (envVarName cl field prefix) \<noteq> None \<and> \<not> helpSeen cl) = False"
      by (simp add: fromEnv_def)
    have pf: "phaseFormat cl field prefix = ''%s def: %w''"
      using False by (simp add: phaseFormat_def)
    show ?thesis
      unfolding pf
      by (subst fieldLoop.simps(2))
         (simp add: Let_def c e f False resolveField_def sourceText_def del: not_None_eq)
  qed
qed

lemma Var_not_error: "fst (Var val nm use cl) \<noteq> Returned (Some e)"
  by (simp add: Var_def)

lemma TypedVar_not_error: "fst (TypedVar p t nm v use cl) \<noteq> Returned (Some e)"
  by (simp add: TypedVar_def Var_not_error)

lemma Var_registers:
  assumes "\<not> HasPrefix nm ''-''" "CHR ''='' \<notin> set nm" "formal (flagSet cl) nm = None"
  shows "Var val nm use cl = (Returned None, register nm use val cl)"
  using assms by (simp add: Var_def)

lemma Var_cases:
  "Var val nm use cl = (Returned None, register nm use val cl) \<or> (\<exists>m. Var val nm use cl = (Panicked m, cl))"
  by (simp add: Var_def)

lemma parseValue_coerce:
  assumes "t \<in> set supportedTypes"
  shows "parseValue ext (kind_of t) (p, t) flag source use cl =
           (case coerce ext t source of
              Inl e \<Rightarrow> (Returned (Some e), cl)
            | Inr v \<Rightarrow> Var (p, t) flag use (store p v cl))"
proof -
  from assms consider "t = TBool" | "t = TString" | "t = TUint" | "t = TUint64" | "t = TInt"
    | "t = TInt64" | "t = TDuration" | "t = TFloat64" | "t = TURL" | "t = TTime"
    | "t = TStringSlice" | "t = TIntSlice"
    by (auto simp: supportedTypes_def)
  then show ?thesis
  proof cases
    case 1
    then show ?thesis
      by (simp add: parseValue_def coerce_def supportedTypes_def parseBool_def TypedVar_def
            split: prod.splits option.splits)
  next
    case 2
    then show ?thesis
      by (simp add: parseValue_def coerce_def supportedTypes_def TypedVar_def)
  next
    case 3
    then show ?thesis
      by (simp add: parseValue_def coerce_def supportedTypes_def parseUint_def TypedVar_def
            split: prod.splits option.splits)
  next
    case 4
    then show ?thesis
      by (simp add: parseValue_def coerce_def supportedTypes_def parseUint64_def TypedVar_def
            split: prod.splits option.splits)
  next
    case 5
    then show ?thesis
      by (simp add: parseValue_def coerce_def supportedTypes_def parseInt_def TypedVar_def
            split: prod.splits option.splits)
  next
    case 6
    then show ?thesis
      by (simp add: parseValue_def coerce_def supportedTypes_def parseInt64_def TypedVar_def
            split: prod.splits option.splits)
  next
    case 7
    then show ?thesis
      by (simp add: parseValue_def coerce_def supportedTypes_def parseDuration_def TypedVar_def
            split: prod.splits option.splits)
  next
    case 8
    then show ?thesis
      by (simp add: parseValue_def coerce_def supportedTypes_def parseFloat64_def TypedVar_def
            split: prod.splits option.splits)
  next
    case 9
    then show ?thesis
      by (simp add: parseValue_def coerce_def supportedTypes_def parseURL_def
            split: prod.splits option.splits)
  next
    case 10
    then show ?thesis
      by (simp add: parseValue_def coerce_def supportedTypes_def parseTime_def
            split: prod.splits option.splits)
  next
    case 11
    then show ?thesis
      by (simp add: parseValue_def coerce_def supportedTypes_def parseStringSlice_def
            split: prod.splits option.splits)
  next
    case 12
    then show ?thesis
      by (simp add: parseValue_def coerce_def supportedTypes_def parseIntSlice_def
            split: prod.splits option.splits)
  qed
qed

lemma fieldLoop_unexported:
  "\<not> IsExported field \<Longrightarrow> \<exists>m. fieldLoop ext (field # rest) i base flags prefix cl = (Panicked m, cl)"
  by (subst fieldLoop.simps(2)) (simp add: Let_def)

lemma subParse_struct:
  "kind_of t = KStruct \<Longrightarrow>
   subParse ext (IPtr t (Some p)) flags prefix cl =
     fieldLoop ext (fieldsOf ext t) 0 p flags prefix (parseHelp flags cl)"
  by (simp add: subParse.simps Let_def)

lemma fieldLoop_namespace:
  assumes "IsExported field" "\<not> terminal field"
  shows "fieldLoop ext (field # rest) i base flags prefix cl =
           (case fieldLoop ext (fieldsOf ext (Type field)) 0 (base @ [i]) flags (newPrefix field prefix)
                   (parseHelp flags cl) of
              (Returned None, cl') \<Rightarrow> fieldLoop ext rest (Suc i) base flags prefix cl'
            | (r, cl') \<Rightarrow> (r, cl'))"
proof -
  have c: "(kind_of (Type field) = KStruct \<and> Type field \<noteq> TURL \<and> Type field \<noteq> TTime) = True"
    using assms(2) by (simp add: terminal_def)
  have e: "(\<not> IsExported field) = False"
    using assms(1) by simp
  have k: "kind_of (Type field) = KStruct" using c by simp
  show ?thesis
    by (subst fieldLoop.simps(2)) (simp only: Let_def c e if_True if_False subParse_struct [OF k])
qed

text \<open>Induction over the walk: the fields of a nested struct and the rest of the list.\<close>

lemma fieldLoop_induct [consumes 0, case_names Nil Unexported Namespace Terminal]:
  assumes nil: "\<And>i base prefix cl. Q [] i base prefix cl"
    and unexp: "\<And>field rest i base prefix cl. \<not> IsExported field \<Longrightarrow> Q (field # rest) i base prefix cl"
    and ns: "\<And>field rest i base prefix cl. IsExported field \<Longrightarrow> \<not> terminal field \<Longrightarrow>
               (\<And>i base prefix cl. Q (fieldsOf ext (Type field)) i base prefix cl) \<Longrightarrow>
               (\<And>i base prefix cl. Q rest i base prefix cl) \<Longrightarrow> Q (field # rest) i base prefix cl"
    and tm: "\<And>field rest i base prefix cl. IsExported field \<Longrightarrow> terminal field \<Longrightarrow>
               (\<And>i base prefix cl. Q rest i base prefix cl) \<Longrightarrow> Q (field # rest) i base prefix cl"
  shows "Q fs i base prefix (cl :: 'x comandLine)"
proof (induction fs arbitrary: i base prefix cl rule: measure_induct_rule [where f = "size_list size"])
  case (less fs)
  show ?case
  proof (cases fs)
    case Nil
    then show ?thesis by (simp add: nil)
  next
    case (Cons field rest)
    have r: "Q rest i base prefix cl" for i base prefix cl
      by (rule less) (simp add: Cons)
    show ?thesis
    proof (cases "IsExported field")
      case False
      then show ?thesis unfolding Cons by (rule unexp)
    next
      case True
      show ?thesis
      proof (cases "terminal field")
        case t: True
        show ?thesis unfolding Cons by (rule tm [OF True t r])
      next
        case f: False
        then have "Type field \<noteq> TURL" "Type field \<noteq> TTime" by (simp_all add: terminal_def)
        then have "size_list size (fieldsOf ext (Type field)) < size_list size fs"
          using fieldsOf_size [of "Type field" ext] Type_size [of field] by (simp add: Cons)
        then have n: "Q (fieldsOf ext (Type field)) i base prefix cl" for i base prefix cl
          by (rule less)
        show ?thesis unfolding Cons by (rule ns [OF True f n r])
      qed
    qed
  qed
qed

subsection \<open>What the walk and the final pass leave unchanged\<close>

lemma parseHelp_frame:
  "memory (parseHelp flags cl) = memory cl"
  "flagSet (parseHelp flags cl) = flagSet cl"
  "lookups (parseHelp flags cl) = lookups cl"
  "errorHandling (parseHelp flags cl) = errorHandling cl"
  "outputLog (parseHelp flags cl) = outputLog cl"
  "name (parseHelp flags cl) = name cl"
  "lookupEnvFunc (parseHelp flags cl) = lookupEnvFunc cl"
  "helpSeen (parseHelp flags cl) = (helpSeen cl \<or> list_ex isHelpToken flags)"
  by (simp_all add: parseHelp_def)

lemma exit_frame:
  "memory (snd (exit e cl)) = memory cl"
  "flagSet (snd (exit e cl)) = flagSet cl"
  "lookups (snd (exit e cl)) = lookups cl"
  by (simp_all add: exit_def split: option.splits)

lemma coolLine_simps:
  "errorHandling (coolLine env mem) = ContinueOnError"
  "memory (coolLine env mem) = mem"
  "formal (flagSet (coolLine env mem)) = Map.empty"
  "actual (flagSet (coolLine env mem)) = Map.empty"
  "setName (flagSet (coolLine env mem)) = ''cool''"
  "lookups (coolLine env mem) = []"
  "helpSeen (coolLine env mem) = False"
  "name (coolLine env mem) = ''cool''"
  "lookupEnvFunc (coolLine env mem) = env"
  "outputLog (coolLine env mem) = []"
  by (simp_all add: coolLine_def newCommandLine_def NewFlagSet_def)

lemma sameSettings_refl: "sameSettings cl cl"
  by (simp add: sameSettings_def)

lemma sameSettings_trans: "sameSettings a b \<Longrightarrow> sameSettings b c \<Longrightarrow> sameSettings a c"
  by (simp add: sameSettings_def)

lemma parseHelp_sameSettings: "sameSettings cl (parseHelp flags cl)"
  by (simp add: sameSettings_def parseHelp_frame)

lemma Var_frame:
  "Var val nm use cl = (r, cl') \<Longrightarrow>
     sameSettings cl cl' \<and> helpSeen cl' = helpSeen cl \<and> lookups cl' = lookups cl \<and> memory cl' = memory cl"
  by (auto simp: Var_def register_def sameSettings_def split: if_splits)

lemma store_frame:
  "sameSettings cl (store p v cl)" "helpSeen (store p v cl) = helpSeen cl"
  "lookups (store p v cl) = lookups cl" "flagSet (store p v cl) = flagSet cl"
  by (simp_all add: store_def sameSettings_def)

lemma parseValue_frame:
  assumes "parseValue ext k vp flag source use cl = (r, cl')"
  shows "sameSettings cl cl' \<and> helpSeen cl' = helpSeen cl \<and> lookups cl' = lookups cl"
proof -
  have v: "Var val nm u (store p v cl) = (r, cl') \<Longrightarrow>
        sameSettings cl cl' \<and> helpSeen cl' = helpSeen cl \<and> lookups cl' = lookups cl" for val nm u p v
    using Var_frame [of val nm u "store p v cl" r cl'] store_frame [where cl = cl and p = p and v = v]
    by (auto intro: sameSettings_trans)
  show ?thesis
    using assms
    by (cases k; cases "snd vp")
       (auto simp: parseValue_def Let_def parseBool_def parseUint_def parseUint64_def parseInt_def
          parseInt64_def parseDuration_def parseFloat64_def parseStringSlice_def parseIntSlice_def
          parseURL_def parseTime_def TypedVar_def assertionPanic_def sameSettings_refl
          split: if_splits prod.splits option.splits dest!: v)
qed

lemma fieldLoop_frame:
  "fieldLoop ext fs i base flags prefix cl = (r, cl') \<Longrightarrow>
     sameSettings cl cl' \<and> (helpSeen cl \<longrightarrow> helpSeen cl')
       \<and> (helpSeen cl' \<longrightarrow> helpSeen cl \<or> list_ex isHelpToken flags)"
proof (induction fs i base prefix cl arbitrary: r cl' rule: fieldLoop_induct [where ext = ext])
  case (Nil i base prefix cl)
  then show ?case by (simp add: sameSettings_refl)
next
  case (Unexported field rest i base prefix cl)
  then show ?case
    using fieldLoop_unexported [of field ext rest i base flags prefix cl]
    by (auto simp: sameSettings_refl)
next
  case (Namespace field rest i base prefix cl)
  obtain r1 cl1 where s: "fieldLoop ext (fieldsOf ext (Type field)) 0 (base @ [i]) flags
      (newPrefix field prefix) (parseHelp flags cl) = (r1, cl1)"
    by (cases "fieldLoop ext (fieldsOf ext (Type field)) 0 (base @ [i]) flags
      (newPrefix field prefix) (parseHelp flags cl)") auto
  have a: "sameSettings cl cl1 \<and> (helpSeen cl \<longrightarrow> helpSeen cl1)
       \<and> (helpSeen cl1 \<longrightarrow> helpSeen cl \<or> list_ex isHelpToken flags)"
    using Namespace.IH(1) [OF s] parseHelp_sameSettings [of cl flags]
    by (auto simp: parseHelp_frame intro: sameSettings_trans)
  show ?case
  proof (cases "r1 = Returned None")
    case True
    then have "fieldLoop ext rest (Suc i) base flags prefix cl1 = (r, cl')"
      using Namespace.prems fieldLoop_namespace [OF Namespace.hyps, of ext rest i base flags prefix cl]
      by (simp add: s)
    from Namespace.IH(2) [OF this] a show ?thesis
      by (auto intro: sameSettings_trans)
  next
    case False
    then have "cl' = cl1"
      using Namespace.prems fieldLoop_namespace [OF Namespace.hyps, of ext rest i base flags prefix cl]
      by (auto simp: s split: outcome.splits option.splits)
    with a show ?thesis by simp
  qed
next
  case (Terminal field rest i base prefix cl)
  obtain r1 cl1 where s: "resolveField ext field i base prefix cl = (r1, cl1)"
    by (cases "resolveField ext field i base prefix cl") auto
  have a: "sameSettings cl cl1 \<and> helpSeen cl1 = helpSeen cl"
    using parseValue_frame [OF s [unfolded resolveField_def]]
    by (simp add: sameSettings_def)
  show ?case
  proof (cases "r1 = Returned None")
    case True
    then have "fieldLoop ext rest (Suc i) base flags prefix cl1 = (r, cl')"
      using Terminal.prems fieldLoop_terminal [OF Terminal.hyps, of ext rest i base flags prefix cl]
      by (simp add: s)
    from Terminal.IH [OF this] a show ?thesis
      by (auto intro: sameSettings_trans)
  next
    case False
    then have "cl' = cl1"
      using Terminal.prems fieldLoop_terminal [OF Terminal.hyps, of ext rest i base flags prefix cl]
      by (auto simp: s split: outcome.splits option.splits)
    with a show ?thesis by simp
  qed
qed

lemma subParse_frame:
  assumes "subParse ext config flags prefix cl = (r, cl')"
  shows "sameSettings cl cl' \<and> helpSeen cl' = (helpSeen cl \<or> list_ex isHelpToken flags)"
proof (cases "\<exists>t p. config = IPtr t (Some p) \<and> kind_of t = KStruct")
  case True
  then obtain t p where c: "config = IPtr t (Some p)" "kind_of t = KStruct" by auto
  have "fieldLoop ext (fieldsOf ext t) 0 p flags prefix (parseHelp flags cl) = (r, cl')"
    using assms by (simp add: c subParse_struct)
  from fieldLoop_frame [OF this] show ?thesis
    using parseHelp_sameSettings [of cl flags]
    by (auto simp: parseHelp_frame intro: sameSettings_trans)
next
  case False
  then have "cl' = parseHelp flags cl"
    using assms by (cases config) (auto simp: subParse.simps Let_def split: if_splits option.splits)
  then show ?thesis
    by (simp add: parseHelp_frame parseHelp_sameSettings)
qed

lemma flagFrame_refl: "flagFrame cl cl"
  by (simp add: flagFrame_def sameSettings_def)

lemma flagFrame_trans: "flagFrame a b \<Longrightarrow> flagFrame b c \<Longrightarrow> flagFrame a c"
  by (simp add: flagFrame_def sameSettings_def)

lemma flagFrame_setArgs: "flagFrame cl (setArgs a cl)"
  by (simp add: flagFrame_def sameSettings_def setArgs_def)

lemma flagFrame_markActual: "flagFrame cl (markActual nm fl cl)"
  by (simp add: flagFrame_def sameSettings_def markActual_def)

lemma flagFrame_store: "flagFrame cl (store p v cl)"
  by (simp add: flagFrame_def sameSettings_def store_def)

lemma ValueSet_frame: "ValueSet ext val s cl = (e, cl') \<Longrightarrow> flagFrame cl cl'"
  by (auto simp: ValueSet_def flagFrame_store split: prod.splits)

lemma parseOne_frame:
  assumes "parseOne ext cl = (se, cl')"
  shows "flagFrame cl cl'"
proof (cases "args (flagSet cl)")
  case Nil
  with assms show ?thesis by (auto simp: parseOne_def flagFrame_refl)
next
  case (Cons s rest)
  have v: "ValueSet ext val t (setArgs a cl) = (e, c) \<Longrightarrow> flagFrame cl c" for val t a e c
    using ValueSet_frame [of ext val t "setArgs a cl" e c] flagFrame_setArgs [of cl a]
    by (blast intro: flagFrame_trans)
  have v2: "ValueSet ext val t (setArgs a (setArgs b cl)) = (e, c) \<Longrightarrow> flagFrame cl c" for val t a b e c
    using ValueSet_frame [of ext val t "setArgs a (setArgs b cl)" e c] flagFrame_setArgs [of cl b]
      flagFrame_setArgs [of "setArgs b cl" a]
    by (blast intro: flagFrame_trans)
  have m: "flagFrame cl c \<Longrightarrow> flagFrame cl (markActual nm fl c)" for c nm fl
    using flagFrame_markActual [of c nm fl] by (blast intro: flagFrame_trans)
  from assms Cons show ?thesis
    unfolding parseOne_def Let_def
    by (auto simp: flagFrame_refl flagFrame_setArgs
             split: if_splits option.splits prod.splits intro!: m dest: v v2)
qed

lemma ParseLoop_frame:
  "ParseLoop ext cl = (e, cl') \<Longrightarrow> flagFrame cl cl'"
proof (induction ext cl arbitrary: e cl' rule: ParseLoop.induct)
  case (1 ext cl)
  obtain seen e1 cl1 where p: "parseOne ext cl = ((seen, e1), cl1)"
    by (cases "parseOne ext cl") auto
  note f = parseOne_frame [OF p]
  show ?case
  proof (cases seen)
    case True
    then have "ParseLoop ext cl1 = (e, cl')"
      using "1.prems" by (subst (asm) ParseLoop.simps) (simp add: p)
    with "1.IH" [OF p [symmetric] refl] True f show ?thesis
      by (auto intro: flagFrame_trans)
  next
    case False
    then have "cl' = cl1"
      using "1.prems" by (subst (asm) ParseLoop.simps) (simp add: p)
    with f show ?thesis by simp
  qed
qed

lemma FlagSetParse_frame:
  assumes "FlagSetParse ext arguments cl = (e, cl')"
  shows "flagFrame cl cl'"
  using ParseLoop_frame [OF assms [unfolded FlagSetParse_def]] flagFrame_setArgs [of cl arguments]
  by (blast intro: flagFrame_trans)

subsection \<open>Paths, and what a step of the walk assigns\<close>

lemma getPath_setPath_same: "validPath p m \<Longrightarrow> getPath p (setPath p v m) = v"
  by (induction p m rule: validPath.induct) auto

lemma getPath_setPath_diverge: "diverge q p \<Longrightarrow> getPath q (setPath p v m) = getPath q m"
proof (induction q p arbitrary: m rule: diverge.induct)
  case (1 a q b p)
  show ?case
  proof (cases m)
    case (VStruct vs)
    with 1 show ?thesis by (auto simp: nth_list_update)
  qed simp_all
qed simp_all

lemma diverge_append: "diverge q p \<Longrightarrow> diverge q (p @ x)"
  by (induction q p rule: diverge.induct) auto

lemma diverge_sibling: "j \<noteq> i \<Longrightarrow> diverge (base @ j # r) (base @ i # s)"
  by (induction base) auto

lemma untouched_step: "untouched base i q \<Longrightarrow> diverge q (base @ [i])"
  by (auto simp: untouched_def diverge_append diverge_sibling)

lemma untouched_Suc: "untouched base i q \<Longrightarrow> untouched base (Suc i) q"
  by (auto simp: untouched_def)

lemma untouched_nested: "untouched base i q \<Longrightarrow> untouched (base @ [i]) j q"
  by (auto simp: untouched_def diverge_append diverge_sibling)

lemma untouched_self: "untouched base (Suc i) (base @ i # r)"
  by (auto simp: untouched_def)

lemma Var_shape:
  "Var val nm use cl = (res, cl') \<Longrightarrow>
     cl' = cl \<and> res \<noteq> Returned None
     \<or> (cl' = register nm use val cl \<and> res = Returned None \<and> formal (flagSet cl) nm = None
         \<and> \<not> HasPrefix nm ''-'' \<and> CHR ''='' \<notin> set nm)"
  by (auto simp: Var_def split: if_splits)

lemma Var_stepShape:
  "Var (p, t) flag use (store p v cl) = (res, cl') \<Longrightarrow> stepShape p t flag use res cl cl'"
  by (drule Var_shape) (auto simp: stepShape_def store_def)

lemma parseValue_shape:
  assumes "parseValue ext k (p, t) flag source use cl = (res, cl')"
  shows "stepShape p t flag use res cl cl'"
proof (cases "t \<in> set supportedTypes \<and> k = kind_of t")
  case True
  then show ?thesis
    using assms Var_stepShape [of p t flag use _ cl res cl']
    by (auto simp: parseValue_coerce stepShape_def split: sum.splits)
next
  case False
  have "res \<noteq> Returned None \<and> cl' = cl"
    using assms False
    by (cases k; cases t)
       (auto simp: parseValue_def assertionPanic_def supportedTypes_def split: if_splits)
  then show ?thesis by (simp add: stepShape_def)
qed

lemma resolveField_shape:
  "resolveField ext field i base prefix cl = (res, cl') \<Longrightarrow>
     stepShape (base @ [i]) (Type field) (flagName field prefix)
       (usage field (envVarName cl field prefix) prefix) res
       (cl\<lparr>lookups := lookups cl @ [envVarName cl field prefix]\<rparr>) cl'"
  unfolding resolveField_def by (rule parseValue_shape)

lemma stepShape_memory:
  assumes "stepShape p t flag use res cl cl'" "diverge q p"
  shows "getPath q (memory cl') = getPath q (memory cl)"
  using assms by (auto simp: stepShape_def store_def register_def getPath_setPath_diverge)

lemma stepShape_formal:
  assumes "stepShape p t flag use res cl cl'" "formal (flagSet cl) n = Some x"
  shows "formal (flagSet cl') n = Some x"
  using assms by (auto simp: stepShape_def store_def register_def)

text \<open>What a walk keeps: the memory outside the fields it visits and the flags already registered.\<close>

lemma fieldLoop_keeps:
  "fieldLoop ext fs i base flags prefix cl = (res, cl') \<Longrightarrow>
     (untouched base i q \<longrightarrow> getPath q (memory cl') = getPath q (memory cl))
     \<and> (formal (flagSet cl) n = Some x \<longrightarrow> formal (flagSet cl') n = Some x)"
proof (induction fs i base prefix cl arbitrary: res cl' rule: fieldLoop_induct [where ext = ext])
  case (Nil i base prefix cl)
  then show ?case by simp
next
  case (Unexported field rest i base prefix cl)
  then show ?case
    using fieldLoop_unexported [of field ext rest i base flags prefix cl] by auto
next
  case (Namespace field rest i base prefix cl)
  obtain r1 cl1 where s: "fieldLoop ext (fieldsOf ext (Type field)) 0 (base @ [i]) flags
      (newPrefix field prefix) (parseHelp flags cl) = (r1, cl1)"
    by (cases "fieldLoop ext (fieldsOf ext (Type field)) 0 (base @ [i]) flags
      (newPrefix field prefix) (parseHelp flags cl)") auto
  have a: "(untouched base i q \<longrightarrow> getPath q (memory cl1) = getPath q (memory cl))
     \<and> (formal (flagSet cl) n = Some x \<longrightarrow> formal (flagSet cl1) n = Some x)"
    using Namespace.IH(1) [OF s] untouched_nested [of base i q 0]
    by (auto simp: parseHelp_frame)
  show ?case
  proof (cases "r1 = Returned None")
    case True
    then have "fieldLoop ext rest (Suc i) base flags prefix cl1 = (res, cl')"
      using Namespace.prems fieldLoop_namespace [OF Namespace.hyps, of ext rest i base flags prefix cl]
      by (simp add: s)
    from Namespace.IH(2) [OF this] a show ?thesis
      by (auto dest: untouched_Suc)
  next
    case False
    then have "cl' = cl1"
      using Namespace.prems fieldLoop_namespace [OF Namespace.hyps, of ext rest i base flags prefix cl]
      by (auto simp: s split: outcome.splits option.splits)
    with a show ?thesis by simp
  qed
next
  case (Terminal field rest i base prefix cl)
  obtain r1 cl1 where s: "resolveField ext field i base prefix cl = (r1, cl1)"
    by (cases "resolveField ext field i base prefix cl") auto
  note sh = resolveField_shape [OF s]
  have a: "(untouched base i q \<longrightarrow> getPath q (memory cl1) = getPath q (memory cl))
     \<and> (formal (flagSet cl) n = Some x \<longrightarrow> formal (flagSet cl1) n = Some x)"
    using stepShape_memory [OF sh, of q] stepShape_formal [OF sh, of n x] untouched_step [of base i q]
    by auto
  show ?case
  proof (cases "r1 = Returned None")
    case True
    then have "fieldLoop ext rest (Suc i) base flags prefix cl1 = (res, cl')"
      using Terminal.prems fieldLoop_terminal [OF Terminal.hyps, of ext rest i base flags prefix cl]
      by (simp add: s)
    from Terminal.IH [OF this] a show ?thesis
      by (auto dest: untouched_Suc)
  next
    case False
    then have "cl' = cl1"
      using Terminal.prems fieldLoop_terminal [OF Terminal.hyps, of ext rest i base flags prefix cl]
      by (auto simp: s split: outcome.splits option.splits)
    with a show ?thesis by simp
  qed
qed

text \<open>
  The step of the loop at a terminal field of a supported type, by what the coercion of the
  selected text gives.
\<close>

lemma terminal_step_error:
  assumes "IsExported field" "terminal field" "Type field \<in> set supportedTypes"
    and "coerce ext (Type field) (sourceText cl field prefix) = Inl e"
  shows "fieldLoop ext (field # rest) i base flags prefix cl =
           (Returned (Some (Errorf (phaseFormat cl field prefix) [Name field] e)),
            cl\<lparr>lookups := lookups cl @ [envVarName cl field prefix]\<rparr>)"
  by (simp add: fieldLoop_terminal [OF assms(1,2)] resolveField_def parseValue_coerce [OF assms(3)] assms(4))

lemma terminal_step_value:
  assumes "IsExported field" "terminal field" "Type field \<in> set supportedTypes"
    and "coerce ext (Type field) (sourceText cl field prefix) = Inr v"
  shows "fieldLoop ext (field # rest) i base flags prefix cl =
           (case Var (base @ [i], Type field) (flagName field prefix)
                   (usage field (envVarName cl field prefix) prefix)
                   (store (base @ [i]) v (cl\<lparr>lookups := lookups cl @ [envVarName cl field prefix]\<rparr>)) of
              (Returned None, cl') \<Rightarrow> fieldLoop ext rest (Suc i) base flags prefix cl'
            | (r, cl') \<Rightarrow> (r, cl'))"
proof -
  have "\<And>e c. Var (base @ [i], Type field) (flagName field prefix)
                   (usage field (envVarName cl field prefix) prefix)
                   (store (base @ [i]) v (cl\<lparr>lookups := lookups cl @ [envVarName cl field prefix]\<rparr>))
          \<noteq> (Returned (Some e), c)"
    using Var_not_error by (metis fst_conv)
  then show ?thesis
    by (simp add: fieldLoop_terminal [OF assms(1,2)] resolveField_def parseValue_coerce [OF assms(3)] assms(4)
          split: prod.splits outcome.splits option.splits)
qed

lemma terminal_success:
  assumes "IsExported field" "terminal field" "Type field \<in> set supportedTypes"
    and "validPath (base @ [i]) (memory cl)"
    and "fieldLoop ext (field # rest) i base flags prefix cl = (Returned None, cl1)"
  shows "\<exists>v. coerce ext (Type field) (sourceText cl field prefix) = Inr v
           \<and> getPath (base @ [i]) (memory cl1) = v
           \<and> formal (flagSet cl1) (flagName field prefix) =
               Some \<lparr>FlagName = flagName field prefix,
                     Usage = usage field (envVarName cl field prefix) prefix,
                     Value = (base @ [i], Type field)\<rparr>
           \<and> formal (flagSet cl) (flagName field prefix) = None"
proof (cases "coerce ext (Type field) (sourceText cl field prefix)")
  case (Inl e)
  from terminal_step_error [OF assms(1-3) Inl] assms(5) show ?thesis by simp
next
  case (Inr v)
  let ?cl = "store (base @ [i]) v (cl\<lparr>lookups := lookups cl @ [envVarName cl field prefix]\<rparr>)"
  let ?n = "flagName field prefix"
  let ?u = "usage field (envVarName cl field prefix) prefix"
  obtain r c where var: "Var (base @ [i], Type field) ?n ?u ?cl = (r, c)"
    by (cases "Var (base @ [i], Type field) ?n ?u ?cl") auto
  from terminal_step_value [OF assms(1-3) Inr, of rest i base flags] assms(5) var
  have r: "r = Returned None" and rest: "fieldLoop ext rest (Suc i) base flags prefix c = (Returned None, cl1)"
    by (auto split: outcome.splits option.splits)
  from Var_shape [OF var] r
  have c: "c = register ?n ?u (base @ [i], Type field) ?cl" and fresh: "formal (flagSet ?cl) ?n = None"
    by auto
  have m: "getPath (base @ [i]) (memory c) = v"
    using assms(4) by (simp add: c register_def store_def getPath_setPath_same)
  have f: "formal (flagSet c) ?n = Some \<lparr>FlagName = ?n, Usage = ?u, Value = (base @ [i], Type field)\<rparr>"
    by (simp add: c register_def)
  from fieldLoop_keeps [OF rest, of "base @ [i]" ?n] m f untouched_self [of base i "[]"]
  show ?thesis
    using Inr fresh by (auto simp: store_def)
qed

subsection \<open>Evaluation and read-back\<close>

lemmas strcase_eval = char_of_def bit_0 ToKebab_def ToScreamingSnake_def ToDelimited_def
  ToScreamingDelimited_def TrimSpace_def isSpace_def byte_def isCap_def isLow_def isNum_def
  toUpperByte_def toLowerByte_def Let_def

lemma coerce_StringSlice:
  "coerce ext TStringSlice source =
     Inr (VStringSlice (if source = [] then [] else fst (StringSlice_Set ext [] source)))"
  by (simp add: coerce_def supportedTypes_def)

lemma Var_memory: "memory (snd (Var val nm use cl)) = memory cl"
  by (simp add: Var_def register_def)

lemma sourceText_unfold:
  "sourceText cl field prefix =
     (if lookupEnvFunc cl (envVarName cl field prefix) \<noteq> None \<and> \<not> helpSeen cl
      then the (lookupEnvFunc cl (envVarName cl field prefix))
      else TagGet (Tag field) ''def'')"
  by (simp add: sourceText_def fromEnv_def)

lemma terminal_readback:
  assumes "IsExported field" "terminal field" "Type field \<in> set supportedTypes"
    and "validPath (base @ [i]) (memory cl)"
    and "coerce ext (Type field) (sourceText cl field prefix) = Inr v"
  shows "getPath (base @ [i]) (memory (snd (fieldLoop ext (field # rest) i base flags prefix cl))) = v"
proof -
  let ?cl = "store (base @ [i]) v (cl\<lparr>lookups := lookups cl @ [envVarName cl field prefix]\<rparr>)"
  let ?n = "flagName field prefix"
  let ?u = "usage field (envVarName cl field prefix) prefix"
  obtain r c where var: "Var (base @ [i], Type field) ?n ?u ?cl = (r, c)"
    by (cases "Var (base @ [i], Type field) ?n ?u ?cl") auto
  have "memory c = memory ?cl"
    using Var_memory [of "(base @ [i], Type field)" ?n ?u ?cl] by (simp only: var snd_conv)
  then have m: "getPath (base @ [i]) (memory c) = v"
    using assms(4) by (simp add: store_def getPath_setPath_same)
  show ?thesis
  proof (cases "r = Returned None")
    case True
    obtain r2 c2 where rest: "fieldLoop ext rest (Suc i) base flags prefix c = (r2, c2)"
      by (cases "fieldLoop ext rest (Suc i) base flags prefix c") auto
    have "fieldLoop ext (field # rest) i base flags prefix cl = (r2, c2)"
      by (simp add: terminal_step_value [OF assms(1-3,5)] var True rest)
    with fieldLoop_keeps [OF rest, of "base @ [i]"] untouched_self [of base i "[]"] m
    show ?thesis by simp
  next
    case False
    then have "fieldLoop ext (field # rest) i base flags prefix cl = (r, c)"
      by (simp add: terminal_step_value [OF assms(1-3,5)] var split: outcome.splits option.splits)
    with m show ?thesis by simp
  qed
qed

lemma terminal_continues:
  assumes "IsExported field" "terminal field" "Type field \<in> set supportedTypes"
    and "coerce ext (Type field) (sourceText cl field prefix) = Inr v"
    and "\<not> HasPrefix (flagName field prefix) ''-''" "CHR ''='' \<notin> set (flagName field prefix)"
    and "formal (flagSet cl) (flagName field prefix) = None"
  shows "fieldLoop ext (field # rest) i base flags prefix cl =
           fieldLoop ext rest (Suc i) base flags prefix
             (register (flagName field prefix) (usage field (envVarName cl field prefix) prefix)
                (base @ [i], Type field)
                (store (base @ [i]) v (cl\<lparr>lookups := lookups cl @ [envVarName cl field prefix]\<rparr>)))"
  using assms(5-7)
  by (simp add: terminal_step_value [OF assms(1-4)] Var_registers store_def)





section \<open>The root type check (claim C6)\<close>

lemma subParse_invalid:
  assumes "\<forall>t a. config = IPtr t a \<longrightarrow> kind_of t \<noteq> KStruct"
  shows "subParse ext config flags prefix cl = (Returned (Some ErrInvalidConfigType), parseHelp flags cl)"
  using assms by (cases config) (simp_all add: subParse.simps Let_def)

text \<open>
  Claim C6. When the argument is not a pointer to a struct (it is nil, not a pointer, or a
  pointer to a type of another kind), \<open>subParse\<close> returns \<open>ErrInvalidConfigType\<close> after the
  scan for help tokens alone: the memory, the flag set and the list of environment lookups
  are as before. \<open>parse\<close> hands that error to \<open>exit\<close>, which leaves them unchanged too and,
  when errors are returned, returns it.
\<close>

theorem C6_invalid_config_type:
  assumes "\<forall>t a. config = IPtr t a \<longrightarrow> kind_of t \<noteq> KStruct"
  shows "subParse ext config flags prefix cl = (Returned (Some ErrInvalidConfigType), parseHelp flags cl)
       \<and> memory (snd (subParse ext config flags prefix cl)) = memory cl
       \<and> flagSet (snd (subParse ext config flags prefix cl)) = flagSet cl
       \<and> lookups (snd (subParse ext config flags prefix cl)) = lookups cl
       \<and> exit (Some ErrInvalidConfigType) (parseHelp flags cl) = parse ext config flags cl
       \<and> memory (snd (parse ext config flags cl)) = memory cl
       \<and> flagSet (snd (parse ext config flags cl)) = flagSet cl
       \<and> lookups (snd (parse ext config flags cl)) = lookups cl
       \<and> (errorHandling cl = ContinueOnError \<longrightarrow>
            fst (parse ext config flags cl) = Returned (Some ErrInvalidConfigType))"
proof -
  have s: "subParse ext config flags prefix cl = (Returned (Some ErrInvalidConfigType), parseHelp flags cl)"
    for prefix
    by (rule subParse_invalid [OF assms])
  have p: "parse ext config flags cl = exit (Some ErrInvalidConfigType) (parseHelp flags cl)"
    by (simp add: parse_def s)
  have c: "errorHandling cl = ContinueOnError \<Longrightarrow>
        fst (exit (Some ErrInvalidConfigType) (parseHelp flags cl)) = Returned (Some ErrInvalidConfigType)"
    by (simp add: exit_def parseHelp_frame)
  show ?thesis
    by (simp add: s p c parseHelp_frame exit_frame)
qed

theorem C6_witness:
  "subParse exampleExt (IPtr TInt (Some [])) [''-port'', ''9090''] [] (coolLine coolEnv (VInt 5)) =
     (Returned (Some ErrInvalidConfigType), parseHelp [''-port'', ''9090''] (coolLine coolEnv (VInt 5)))
   \<and> memory (snd (parse exampleExt (IPtr TInt (Some [])) [''-port'', ''9090''] (coolLine coolEnv (VInt 5)))) = VInt 5
   \<and> formal (flagSet (snd (parse exampleExt (IPtr TInt (Some [])) [''-port'', ''9090''] (coolLine coolEnv (VInt 5))))) = Map.empty
   \<and> lookups (snd (parse exampleExt (IPtr TInt (Some [])) [''-port'', ''9090''] (coolLine coolEnv (VInt 5)))) = []
   \<and> fst (parse exampleExt (IPtr TInt (Some [])) [''-port'', ''9090''] (coolLine coolEnv (VInt 5))) =
       Returned (Some ErrInvalidConfigType)"
  using C6_invalid_config_type [where config = "IPtr TInt (Some [])" and ext = exampleExt
      and flags = "[''-port'', ''9090'']" and prefix = "[]" and cl = "coolLine coolEnv (VInt 5)"]
  by (simp add: coolLine_simps)

section \<open>The empty text gives the zero value (claim C2)\<close>




section \<open>The string list never fails (claim C10)\<close>

lemma parseValue_StringSlice:
  "parseValue ext KSlice (p, TStringSlice) flag source use cl =
     Var (p, TStringSlice) flag use
       (store p (VStringSlice (if source = [] then [] else fst (StringSlice_Set ext [] source))) cl)"
  by (simp add: parseValue_def parseStringSlice_def split: prod.splits)

text \<open>
  Claim C10. For a field of the string list type and any source text, whatever error the
  list's \<open>Set\<close> returns: \<open>parseValue\<close> returns no error, and the variable then holds what \<open>Set\<close>
  produced from the text (the empty list for the empty text); the walk over the field returns
  no error either; the text it selects is the environment's when the variable is set and help
  mode is off, the \<open>def\<close> tag otherwise; after the walk over the field and any fields after
  it, the field's variable holds what \<open>Set\<close> produced from that text; and when the flag's name
  can be registered, the walk goes on with the fields after it.
\<close>

theorem C10_string_list_never_fails:
  assumes "Type field = TStringSlice"
  shows "fst (parseValue ext (kind_of (Type field)) (p, Type field) flag source use cl) \<noteq> Returned (Some e)
       \<and> (validPath p (memory cl) \<longrightarrow>
            getPath p (memory (snd (parseValue ext (kind_of (Type field)) (p, Type field) flag source use cl)))
              = VStringSlice (if source = [] then [] else fst (StringSlice_Set ext [] source)))
       \<and> fst (fieldLoop ext [field] i base flags prefix cl2) \<noteq> Returned (Some e)
       \<and> sourceText cl2 field prefix =
            (if lookupEnvFunc cl2 (envVarName cl2 field prefix) \<noteq> None \<and> \<not> helpSeen cl2
             then the (lookupEnvFunc cl2 (envVarName cl2 field prefix))
             else TagGet (Tag field) ''def'')
       \<and> (IsExported field \<and> validPath (base @ [i]) (memory cl2) \<longrightarrow>
            getPath (base @ [i]) (memory (snd (fieldLoop ext (field # rest) i base flags prefix cl2)))
              = VStringSlice (if sourceText cl2 field prefix = [] then []
                              else fst (StringSlice_Set ext [] (sourceText cl2 field prefix))))
       \<and> (IsExported field \<and> \<not> HasPrefix (flagName field prefix) ''-''
            \<and> CHR ''='' \<notin> set (flagName field prefix) \<and> formal (flagSet cl2) (flagName field prefix) = None \<longrightarrow>
            fieldLoop ext (field # rest) i base flags prefix cl2 =
              fieldLoop ext rest (Suc i) base flags prefix
                (register (flagName field prefix) (usage field (envVarName cl2 field prefix) prefix)
                   (base @ [i], TStringSlice)
                   (store (base @ [i])
                      (VStringSlice (if sourceText cl2 field prefix = [] then []
                                     else fst (StringSlice_Set ext [] (sourceText cl2 field prefix))))
                      (cl2\<lparr>lookups := lookups cl2 @ [envVarName cl2 field prefix]\<rparr>))))"
proof -
  have t: "terminal field" using assms by (simp add: terminal_def)
  have s: "Type field \<in> set supportedTypes" using assms by (simp add: supportedTypes_def)
  have pv: "parseValue ext (kind_of (Type field)) (p, Type field) flag source use cl =
      Var (p, TStringSlice) flag use
        (store p (VStringSlice (if source = [] then [] else fst (StringSlice_Set ext [] source))) cl)"
    using parseValue_coerce [OF s, of ext p flag source use cl]
    by (simp add: assms coerce_StringSlice)
  have 1: "fst (parseValue ext (kind_of (Type field)) (p, Type field) flag source use cl) \<noteq> Returned (Some e)"
    by (simp add: pv Var_not_error)
  have 2: "validPath p (memory cl) \<Longrightarrow>
            getPath p (memory (snd (parseValue ext (kind_of (Type field)) (p, Type field) flag source use cl)))
              = VStringSlice (if source = [] then [] else fst (StringSlice_Set ext [] source))"
    by (simp add: pv Var_memory store_def getPath_setPath_same)
  have 3: "fst (fieldLoop ext [field] i base flags prefix cl2) \<noteq> Returned (Some e)"
  proof (cases "IsExported field")
    case False
    then show ?thesis using fieldLoop_unexported [of field ext "[]" i base flags prefix cl2] by auto
  next
    case True
    have "fst (resolveField ext field i base prefix cl2) \<noteq> Returned (Some e')" for e'
      unfolding resolveField_def by (simp add: assms parseValue_StringSlice Var_not_error)
    then show ?thesis
      unfolding fieldLoop_terminal [OF True t]
      by (cases "resolveField ext field i base prefix cl2")
         (auto split: outcome.splits option.splits)
  qed
  have c: "coerce ext (Type field) (sourceText cl2 field prefix) =
      Inr (VStringSlice (if sourceText cl2 field prefix = [] then []
                              else fst (StringSlice_Set ext [] (sourceText cl2 field prefix))))"
    by (simp add: assms coerce_StringSlice)
  have 5: "IsExported field \<and> validPath (base @ [i]) (memory cl2) \<Longrightarrow>
            getPath (base @ [i]) (memory (snd (fieldLoop ext (field # rest) i base flags prefix cl2)))
              = VStringSlice (if sourceText cl2 field prefix = [] then []
                              else fst (StringSlice_Set ext [] (sourceText cl2 field prefix)))"
    using terminal_readback [OF _ t s _ c, of base i rest flags] by simp
  have 6: "IsExported field \<and> \<not> HasPrefix (flagName field prefix) ''-''
            \<and> CHR ''='' \<notin> set (flagName field prefix) \<and> formal (flagSet cl2) (flagName field prefix) = None \<Longrightarrow>
            fieldLoop ext (field # rest) i base flags prefix cl2 =
              fieldLoop ext rest (Suc i) base flags prefix
                (register (flagName field prefix) (usage field (envVarName cl2 field prefix) prefix)
                   (base @ [i], TStringSlice)
                   (store (base @ [i])
                      (VStringSlice (if sourceText cl2 field prefix = [] then []
                                     else fst (StringSlice_Set ext [] (sourceText cl2 field prefix))))
                      (cl2\<lparr>lookups := lookups cl2 @ [envVarName cl2 field prefix]\<rparr>)))"
    using terminal_continues [OF _ t s c, of rest i base flags] by (simp add: assms)
  show ?thesis
    using 1 2 3 5 6 sourceText_unfold [of cl2 field prefix] by blast
qed

lemma hosts_facts:
  "Type hostsField = TStringSlice"
  "IsExported hostsField"
  "flagName hostsField [] = ''hosts''"
  "name cl = ''cool'' \<Longrightarrow> envVarName cl hostsField [] = ''COOL_HOSTS''"
  "StringSlice_Set failingSetExt [] ''a,b'' = ([''a'', ''b''], Some (LibError ''set''))"
  by (simp_all add: hostsField_def IsExported_def flagName_def envVarName_def TagGet_def
        failingSetExt_def exampleExt_def strcase_eval)

theorem C10_witness:
  "fst (fieldLoop failingSetExt [hostsField] 0 [] [] [] (coolLine hostsEnv (VStruct [VStringSlice [''old'']])))
     = Returned None
   \<and> getPath [0] (memory (snd (fieldLoop failingSetExt [hostsField] 0 [] [] []
                                   (coolLine hostsEnv (VStruct [VStringSlice [''old'']])))))
     = VStringSlice [''a'', ''b'']
   \<and> snd (StringSlice_Set failingSetExt [] ''a,b'') = Some (LibError ''set'')"
proof -
  let ?cl = "coolLine hostsEnv (VStruct [VStringSlice [''old'']])"
  have s: "sourceText ?cl hostsField [] = ''a,b''"
    by (simp add: sourceText_def fromEnv_def hosts_facts coolLine_simps hostsEnv_def)
  note th = C10_string_list_never_fails [OF hosts_facts(1), where ext = failingSetExt and ?cl2.0 = ?cl
      and i = 0 and base = "[]" and rest = "[]" and flags = "[]" and prefix = "[]" and p = "[0]"
      and cl = ?cl and source = "''a,b''" and flag = "''hosts''" and use = "[]"
      and e = "LibError ''set''"]
  from th have rb: "getPath [0] (memory (snd (fieldLoop failingSetExt [hostsField] 0 [] [] [] ?cl)))
      = VStringSlice [''a'', ''b'']"
    by (simp add: hosts_facts coolLine_simps s)
  from th have "fieldLoop failingSetExt [hostsField] 0 [] [] [] ?cl =
      fieldLoop failingSetExt [] (Suc 0) [] [] []
                (register ''hosts'' (usage hostsField ''COOL_HOSTS'' []) ([0], TStringSlice)
                   (store [0] (VStringSlice [''a'', ''b''])
                      (?cl\<lparr>lookups := lookups ?cl @ [''COOL_HOSTS'']\<rparr>)))"
    by (simp add: hosts_facts coolLine_simps s HasPrefix_def)
  then have r: "fst (fieldLoop failingSetExt [hostsField] 0 [] [] [] ?cl) = Returned None"
    by simp
  show ?thesis
    using rb r by (simp add: hosts_facts)
qed

end
